theory Spec2Isabelle
  imports Main
begin

section \<open>Strings and JavaScript truthiness\<close>

text \<open>
  Tokens, messages and header values are JavaScript strings. A value that the source
  tests with \<^verbatim>\<open>if (x)\<close>, \<^verbatim>\<open>!x\<close>, \<^verbatim>\<open>x && y\<close> or \<^verbatim>\<open>x || y\<close> is a
  \<open>string option\<close> here (\<open>None\<close> for \<^verbatim>\<open>null\<close>/\<^verbatim>\<open>undefined\<close>), and it is truthy
  when it is present and not the empty string.
\<close>

definition truthy :: "string option \<Rightarrow> bool" where
  "truthy v = (case v of None \<Rightarrow> False | Some s \<Rightarrow> s \<noteq> [])"

definition starts_with :: "string \<Rightarrow> string \<Rightarrow> bool" where
  "starts_with s t = (take (length t) s = t)"

text \<open>\<^verbatim>\<open>String.prototype.includes\<close>: \<open>t\<close> occurs in \<open>s\<close> as a contiguous substring.\<close>

fun str_includes :: "string \<Rightarrow> string \<Rightarrow> bool" where
  "str_includes [] t = (t = [])"
| "str_includes (c # cs) t = (starts_with (c # cs) t \<or> str_includes cs t)"

text \<open>The decimal rendering of \<^verbatim>\<open>response.status\<close> inside a template string.\<close>

definition digit_char :: "nat \<Rightarrow> char" where
  "digit_char d = ''0123456789'' ! (d mod 10)"

function show_nat :: "nat \<Rightarrow> string" where
  "show_nat n = (if n < 10 then [digit_char n] else show_nat (n div 10) @ [digit_char n])"
  by pat_completeness auto
termination
  by (relation "measure (\<lambda>n. n)") auto

declare show_nat.simps [simp del]

section \<open>Types (core/types.ts)\<close>

text \<open>The required fields of \<^verbatim>\<open>User\<close>; the engine never looks inside a profile.\<close>

record user_profile =
  id :: string
  username :: string
  email :: string
  first_name :: string
  last_name :: string
  is_verified :: bool

datatype storage_strategy = CookieFirst | LocalStorageOnly | Auto

record auth_tokens =
  access_token :: string
  refresh_token :: string

record signup_credentials =
  sc_email :: string
  sc_password :: string

text \<open>The endpoint table after \<^verbatim>\<open>{ ...DEFAULT_ENDPOINTS, ...config.endpoints }\<close>.\<close>

record auth_endpoints =
  ep_login :: string
  ep_logout :: string
  ep_signup :: string
  ep_checkAuth :: string
  ep_userMe :: string
  ep_tokenRefresh :: string

definition DEFAULT_ENDPOINTS :: auth_endpoints where
  "DEFAULT_ENDPOINTS =
     \<lparr>ep_login = ''/login'', ep_logout = ''/logout'', ep_signup = ''/signup'',
      ep_checkAuth = ''/check-auth'', ep_userMe = ''/user/@me'',
      ep_tokenRefresh = ''/token/refresh''\<rparr>"

record auth_config =
  apiBaseUrl :: string
  apiPrefix :: string
  customHeaders :: "string \<rightharpoonup> string"
  endpoints :: auth_endpoints

section \<open>Token storage (core/TokenStorage.ts)\<close>

definition ACCESS_TOKEN :: string where "ACCESS_TOKEN = ''auth_access_token''"
definition REFRESH_TOKEN :: string where "REFRESH_TOKEN = ''auth_refresh_token''"
definition COOKIES_BLOCKED :: string where "COOKIES_BLOCKED = ''auth_cookies_blocked''"

text \<open>
  \<^verbatim>\<open>LocalStorageAdapter\<close> sits on the browser's \<^verbatim>\<open>localStorage\<close>. Every method
  first returns when \<^verbatim>\<open>typeof window === 'undefined'\<close>, and wraps the access in
  \<^verbatim>\<open>try/catch\<close>. The record holds the key-value content together with the two facts
  of the environment these guards read: whether \<^verbatim>\<open>window\<close> exists, and whether
  touching \<^verbatim>\<open>localStorage\<close> throws (storage denied by the browser). A write that
  throws for one key only (quota) is not modelled.
\<close>

record local_storage =
  window_defined :: bool
  ls_denied :: bool
  ls_items :: "string \<rightharpoonup> string"

definition getItem :: "local_storage \<Rightarrow> string \<Rightarrow> string option" where
  "getItem a k =
     (if \<not> window_defined a then None
      else if ls_denied a then None
      else ls_items a k)"

definition setItem :: "local_storage \<Rightarrow> string \<Rightarrow> string \<Rightarrow> local_storage" where
  "setItem a k v =
     (if \<not> window_defined a then a
      else if ls_denied a then a
      else a\<lparr>ls_items := (ls_items a)(k \<mapsto> v)\<rparr>)"

definition removeItem :: "local_storage \<Rightarrow> string \<Rightarrow> local_storage" where
  "removeItem a k =
     (if \<not> window_defined a then a
      else if ls_denied a then a
      else a\<lparr>ls_items := (ls_items a)(k := None)\<rparr>)"

text \<open>\<^verbatim>\<open>clear\<close> removes the three keys of \<^verbatim>\<open>STORAGE_KEYS\<close>, in that order.\<close>

definition adapter_clear :: "local_storage \<Rightarrow> local_storage" where
  "adapter_clear a =
     (if \<not> window_defined a then a
      else if ls_denied a then a
      else a\<lparr>ls_items :=
             (ls_items a)(ACCESS_TOKEN := None, REFRESH_TOKEN := None, COOKIES_BLOCKED := None)\<rparr>)"

record token_storage =
  adapter :: local_storage
  strategy :: storage_strategy

definition setTokens :: "string \<Rightarrow> string \<Rightarrow> token_storage \<Rightarrow> token_storage" where
  "setTokens accessToken refreshToken ts =
     ts\<lparr>adapter :=
          setItem (setItem (setItem (adapter ts) ACCESS_TOKEN accessToken)
                     REFRESH_TOKEN refreshToken)
            COOKIES_BLOCKED ''true''\<rparr>"

definition getAccessToken :: "token_storage \<Rightarrow> string option" where
  "getAccessToken ts = getItem (adapter ts) ACCESS_TOKEN"

definition getRefreshToken :: "token_storage \<Rightarrow> string option" where
  "getRefreshToken ts = getItem (adapter ts) REFRESH_TOKEN"

definition areCookiesBlocked :: "token_storage \<Rightarrow> bool" where
  "areCookiesBlocked ts = (getItem (adapter ts) COOKIES_BLOCKED = Some ''true'')"

definition clearTokens :: "token_storage \<Rightarrow> token_storage" where
  "clearTokens ts = ts\<lparr>adapter := adapter_clear (adapter ts)\<rparr>"

definition shouldUseLocalStorage :: "token_storage \<Rightarrow> bool" where
  "shouldUseLocalStorage ts =
     (if strategy ts = LocalStorageOnly then True
      else
        (let hasFlag = areCookiesBlocked ts;
             hasAccessToken = (getAccessToken ts \<noteq> None);
             hasRefreshToken = (getRefreshToken ts \<noteq> None)
         in hasFlag \<or> hasAccessToken \<or> hasRefreshToken))"

text \<open>
  The calls a holder of a \<^verbatim>\<open>TokenStorage\<close> can make. Only \<open>SetTokens\<close> and
  \<open>ClearTokens\<close> change it; the reads are kept so that a trace is any interleaving of
  reads and writes.
\<close>

datatype storage_call =
  SetTokens string string
  | GetAccessToken
  | GetRefreshToken
  | AreCookiesBlocked
  | ShouldUseLocalStorage
  | GetStrategy
  | ClearTokens

fun storage_step :: "token_storage \<Rightarrow> storage_call \<Rightarrow> token_storage" where
  "storage_step ts (SetTokens a r) = setTokens a r ts"
| "storage_step ts ClearTokens = clearTokens ts"
| "storage_step ts GetAccessToken = ts"
| "storage_step ts GetRefreshToken = ts"
| "storage_step ts AreCookiesBlocked = ts"
| "storage_step ts ShouldUseLocalStorage = ts"
| "storage_step ts GetStrategy = ts"

definition storage_run :: "token_storage \<Rightarrow> storage_call list \<Rightarrow> token_storage" where
  "storage_run ts cs = foldl storage_step ts cs"

text \<open>The adapter really stores: a browser whose \<^verbatim>\<open>localStorage\<close> is accessible.\<close>

definition storage_usable :: "token_storage \<Rightarrow> bool" where
  "storage_usable ts = (window_defined (adapter ts) \<and> \<not> ls_denied (adapter ts))"

section \<open>The transport\<close>

text \<open>
  \<^verbatim>\<open>fetch\<close> is the one external collaborator. A call either rejects (network error,
  carrying the message of the thrown error) or resolves to a status and a body. The body
  is not JSON (carrying the message of the \<^verbatim>\<open>SyntaxError\<close> that
  \<^verbatim>\<open>response.json()\<close> then throws), or the JSON literal \<^verbatim>\<open>null\<close> (carrying the
  message of the \<^verbatim>\<open>TypeError\<close> that the first property read on it throws), or any
  other JSON value. Of such a value the record keeps the fields the source reads, with the
  types \<^verbatim>\<open>AuthResponse\<close> declares; a number, a string, a boolean or an array has
  none of them and is the \<open>empty_body\<close>.
\<close>

record json_body =
  b_error :: "string option"
  b_message :: "string option"
  b_user :: "user_profile option"
  b_access_token :: "string option"
  b_refresh_token :: "string option"
  b_authenticated :: "bool option"

definition empty_body :: json_body where
  "empty_body =
     \<lparr>b_error = None, b_message = None, b_user = None, b_access_token = None,
      b_refresh_token = None, b_authenticated = None\<rparr>"

datatype response_body = NotJson string | JsonNull string | Json json_body

text \<open>What \<^verbatim>\<open>response.json()\<close> resolves to, as \<^verbatim>\<open>request\<close> returns it.\<close>

datatype json_value = JNull string | JObject json_body

datatype response = NetworkError string | Http nat response_body

text \<open>\<^verbatim>\<open>response.ok\<close>: the status is in the range 200-299.\<close>

definition response_ok :: "nat \<Rightarrow> bool" where
  "response_ok status = (200 \<le> status \<and> status \<le> 299)"

text \<open>
  A request as \<^verbatim>\<open>fetch\<close> receives it. \<open>rq_op\<close> names the client method that issued
  it; it is not sent, and serves to count the calls of one kind in the log.
\<close>

datatype client_op = OpLogin | OpSignup | OpLogout | OpCheckAuth | OpGetUser | OpRefreshToken

datatype request_body = NoBody | LoginBody string string | SignupBody signup_credentials

record http_request =
  rq_op :: client_op
  rq_method :: string
  rq_url :: string
  rq_headers :: "string \<rightharpoonup> string"
  rq_credentials :: string
  rq_body :: request_body

text \<open>
  The server is any function from the number of requests issued before and the request to
  a response. The world a client method runs in is the token storage and the log of the
  requests issued so far; the engine's state extends it.
\<close>

type_synonym server = "nat \<Rightarrow> http_request \<Rightarrow> response"

record world =
  storage :: token_storage
  net_log :: "http_request list"

definition fetch :: "server \<Rightarrow> http_request \<Rightarrow> 'a world_scheme \<Rightarrow> response \<times> 'a world_scheme" where
  "fetch srv rq w = (srv (length (net_log w)) rq, w\<lparr>net_log := net_log w @ [rq]\<rparr>)"

section \<open>The client (core/AuthClient.ts)\<close>

text \<open>A thrown \<^verbatim>\<open>Error\<close>; the engine reads its \<^verbatim>\<open>message\<close> only.\<close>

datatype js_error = Error (message: string)

definition getUrl :: "auth_config \<Rightarrow> string \<Rightarrow> string" where
  "getUrl cfg endpoint = apiBaseUrl cfg @ apiPrefix cfg @ endpoint"

definition createHeaders :: "auth_config \<Rightarrow> bool \<Rightarrow> token_storage \<Rightarrow> (string \<rightharpoonup> string)" where
  "createHeaders cfg includeAuth ts =
     (let headers = [''Content-Type'' \<mapsto> ''application/json''] ++ customHeaders cfg
      in if includeAuth then
           (if shouldUseLocalStorage ts then
              (case getAccessToken ts of
                 None \<Rightarrow> headers
               | Some accessToken \<Rightarrow>
                   if accessToken \<noteq> [] then headers(''Authorization'' \<mapsto> ''Bearer '' @ accessToken)
                   else headers)
            else headers)
         else headers)"

text \<open>
  The message of the error \<^verbatim>\<open>request\<close> throws on a response that is not ok:
  \<^verbatim>\<open>errorData.error || errorData.message || `Request failed: ${response.status}`\<close>,
  where \<^verbatim>\<open>errorData\<close> is the empty object when the body is not JSON. When the body
  is \<^verbatim>\<open>null\<close>, reading \<^verbatim>\<open>errorData.error\<close> throws, and that error is the one
  \<^verbatim>\<open>request\<close> throws.
\<close>

definition or_else :: "string option \<Rightarrow> string \<Rightarrow> string" where
  "or_else v d = (case v of None \<Rightarrow> d | Some s \<Rightarrow> if s \<noteq> [] then s else d)"

definition error_message :: "nat \<Rightarrow> response_body \<Rightarrow> string" where
  "error_message status body =
     (case body of
        JsonNull m \<Rightarrow> m
      | NotJson _ \<Rightarrow>
          or_else (b_error empty_body)
            (or_else (b_message empty_body) (''Request failed: '' @ show_nat status))
      | Json errorData \<Rightarrow>
          or_else (b_error errorData)
            (or_else (b_message errorData) (''Request failed: '' @ show_nat status)))"

text \<open>The argument \<^verbatim>\<open>request\<close> hands to \<^verbatim>\<open>fetch\<close>.\<close>

definition build_request ::
  "auth_config \<Rightarrow> client_op \<Rightarrow> string \<Rightarrow> string \<Rightarrow> request_body \<Rightarrow> bool \<Rightarrow> token_storage \<Rightarrow>
   http_request" where
  "build_request cfg opn endpoint method body includeAuth ts =
     (let url = getUrl cfg endpoint;
          headers = createHeaders cfg includeAuth ts
      in \<lparr>rq_op = opn, rq_method = method, rq_url = url, rq_headers = headers,
          rq_credentials = ''include'', rq_body = body\<rparr>)"

definition request ::
  "auth_config \<Rightarrow> server \<Rightarrow> client_op \<Rightarrow> string \<Rightarrow> string \<Rightarrow> request_body \<Rightarrow> bool \<Rightarrow>
   'a world_scheme \<Rightarrow> (js_error + json_value) \<times> 'a world_scheme" where
  "request cfg srv opn endpoint method body includeAuth w =
     (let (resp, w1) =
            fetch srv (build_request cfg opn endpoint method body includeAuth (storage w)) w
      in case resp of
           NetworkError m \<Rightarrow> (Inl (Error m), w1)
         | Http status b \<Rightarrow>
             if \<not> response_ok status then (Inl (Error (error_message status b)), w1)
             else (case b of
                     NotJson m \<Rightarrow> (Inl (Error m), w1)
                   | JsonNull m \<Rightarrow> (Inr (JNull m), w1)
                   | Json d \<Rightarrow> (Inr (JObject d), w1)))"

definition client_login ::
  "auth_config \<Rightarrow> server \<Rightarrow> string \<Rightarrow> string \<Rightarrow> 'a world_scheme \<Rightarrow>
   (js_error + json_value) \<times> 'a world_scheme" where
  "client_login cfg srv em pw w =
     request cfg srv OpLogin (ep_login (endpoints cfg)) ''POST'' (LoginBody em pw) False w"

definition client_signup ::
  "auth_config \<Rightarrow> server \<Rightarrow> signup_credentials \<Rightarrow> 'a world_scheme \<Rightarrow>
   (js_error + json_value) \<times> 'a world_scheme" where
  "client_signup cfg srv credentials w =
     request cfg srv OpSignup (ep_signup (endpoints cfg)) ''POST'' (SignupBody credentials) False w"

definition client_logout ::
  "auth_config \<Rightarrow> server \<Rightarrow> 'a world_scheme \<Rightarrow> (js_error + unit) \<times> 'a world_scheme" where
  "client_logout cfg srv w =
     (case request cfg srv OpLogout (ep_logout (endpoints cfg)) ''POST'' NoBody True w of
        (Inl e, w1) \<Rightarrow> (Inl e, w1)
      | (Inr _, w1) \<Rightarrow> (Inr (), w1\<lparr>storage := clearTokens (storage w1)\<rparr>))"

definition checkAuth_request :: "auth_config \<Rightarrow> token_storage \<Rightarrow> http_request" where
  "checkAuth_request cfg ts =
     build_request cfg OpCheckAuth (ep_checkAuth (endpoints cfg)) ''GET'' NoBody True ts"

definition getUser_request :: "auth_config \<Rightarrow> token_storage \<Rightarrow> http_request" where
  "getUser_request cfg ts =
     build_request cfg OpGetUser (ep_userMe (endpoints cfg)) ''GET'' NoBody True ts"

text \<open>
  \<^verbatim>\<open>checkAuth\<close> reads \<^verbatim>\<open>response.authenticated\<close> inside its \<^verbatim>\<open>try\<close>: on a
  \<^verbatim>\<open>null\<close> response the read throws and the \<^verbatim>\<open>catch\<close> returns false.
  \<^verbatim>\<open>getUser\<close> reads \<^verbatim>\<open>response.user\<close> with nothing around it: there the error
  goes to the caller.
\<close>

definition client_checkAuth ::
  "auth_config \<Rightarrow> server \<Rightarrow> 'a world_scheme \<Rightarrow> bool \<times> 'a world_scheme" where
  "client_checkAuth cfg srv w =
     (case request cfg srv OpCheckAuth (ep_checkAuth (endpoints cfg)) ''GET'' NoBody True w of
        (Inl _, w1) \<Rightarrow> (False, w1)
      | (Inr response, w1) \<Rightarrow>
          (case response of
             JNull _ \<Rightarrow> (False, w1)
           | JObject d \<Rightarrow> ((case b_authenticated d of None \<Rightarrow> True | Some a \<Rightarrow> a), w1)))"

definition client_getUser ::
  "auth_config \<Rightarrow> server \<Rightarrow> 'a world_scheme \<Rightarrow>
   (js_error + user_profile option) \<times> 'a world_scheme" where
  "client_getUser cfg srv w =
     (case request cfg srv OpGetUser (ep_userMe (endpoints cfg)) ''GET'' NoBody True w of
        (Inl e, w1) \<Rightarrow> (Inl e, w1)
      | (Inr response, w1) \<Rightarrow>
          (case response of
             JNull m \<Rightarrow> (Inl (Error m), w1)
           | JObject d \<Rightarrow> (Inr (b_user d), w1)))"

text \<open>
  \<^verbatim>\<open>refreshToken\<close> builds its own request. The whole body is inside one
  \<^verbatim>\<open>try/catch\<close> that returns \<^verbatim>\<open>false\<close>, so a rejected \<^verbatim>\<open>fetch\<close>, a body
  that does not parse, and a \<^verbatim>\<open>null\<close> body (on which reading
  \<^verbatim>\<open>data.access_token\<close> throws) all give \<open>False\<close>.
\<close>

definition refresh_request :: "auth_config \<Rightarrow> (string \<rightharpoonup> string) \<Rightarrow> http_request" where
  "refresh_request cfg headers =
     \<lparr>rq_op = OpRefreshToken, rq_method = ''POST'',
      rq_url = getUrl cfg (ep_tokenRefresh (endpoints cfg)), rq_headers = headers,
      rq_credentials = ''include'', rq_body = NoBody\<rparr>"

definition refreshToken_receive ::
  "bool \<Rightarrow> response \<Rightarrow> 'a world_scheme \<Rightarrow> bool \<times> 'a world_scheme" where
  "refreshToken_receive usingLocalStorage resp w1 =
     (case resp of
        NetworkError _ \<Rightarrow> (False, w1)
      | Http status b \<Rightarrow>
          if \<not> response_ok status then (False, w1)
          else (case b of
                  NotJson _ \<Rightarrow> (False, w1)
                | JsonNull _ \<Rightarrow> (False, w1)
                | Json d \<Rightarrow>
                    if truthy (b_access_token d) \<and> truthy (b_refresh_token d)
                       \<and> usingLocalStorage
                    then (True, w1\<lparr>storage :=
                            setTokens (the (b_access_token d)) (the (b_refresh_token d))
                              (storage w1)\<rparr>)
                    else (True, w1)))"

definition refreshToken_send ::
  "auth_config \<Rightarrow> server \<Rightarrow> bool \<Rightarrow> (string \<rightharpoonup> string) \<Rightarrow> 'a world_scheme \<Rightarrow>
   bool \<times> 'a world_scheme" where
  "refreshToken_send cfg srv usingLocalStorage headers w =
     (let (resp, w1) = fetch srv (refresh_request cfg headers) w
      in refreshToken_receive usingLocalStorage resp w1)"

definition client_refreshToken ::
  "auth_config \<Rightarrow> server \<Rightarrow> 'a world_scheme \<Rightarrow> bool \<times> 'a world_scheme" where
  "client_refreshToken cfg srv w =
     (let usingLocalStorage = shouldUseLocalStorage (storage w);
          headers = [''Content-Type'' \<mapsto> ''application/json'']
      in if usingLocalStorage then
           (case getRefreshToken (storage w) of
              None \<Rightarrow> (False, w)
            | Some refreshToken \<Rightarrow>
                if refreshToken \<noteq> [] then
                  refreshToken_send cfg srv usingLocalStorage
                    (headers(''Authorization'' \<mapsto> ''Bearer '' @ refreshToken)) w
                else (False, w))
         else refreshToken_send cfg srv usingLocalStorage headers w)"

section \<open>The engine (the AuthProvider component)\<close>

text \<open>
  The provider's state: the four \<^verbatim>\<open>useState\<close> cells, the two refs, and the world
  its client and storage act on.
\<close>

record engine = world +
  isAuthenticated :: bool
  loading :: bool
  isRefreshingToken :: bool
  user :: "user_profile option"
  hasCheckedAuth :: bool
  pendingTokens :: "auth_tokens option"

text \<open>
  What an operation is given and does not change: the configuration, the server, the
  effect of the registered \<^verbatim>\<open>transformUser\<close> handlers on the \<^verbatim>\<open>user\<close> field of
  their payload (the identity when none is registered; handlers of the other hook points
  are taken not to touch storage or state), and the two state values that
  \<^verbatim>\<open>refreshAccessToken\<close> reads. That callback reads \<^verbatim>\<open>isRefreshingToken\<close> and
  \<^verbatim>\<open>isAuthenticated\<close> from the closure of the render that created it, not from the
  cells that \<^verbatim>\<open>setIsRefreshingToken\<close> and \<^verbatim>\<open>setIsAuthenticated\<close> write, so during
  one operation they are fixed values: \<open>cap_isRefreshingToken\<close> and
  \<open>cap_isAuthenticated\<close>.
\<close>

record env =
  config :: auth_config
  the_server :: server
  transformUser :: "user_profile option \<Rightarrow> user_profile option"
  cap_isRefreshingToken :: bool
  cap_isAuthenticated :: bool

text \<open>
  The in-flight branch waits 100 ms and returns the captured flag; the wait changes
  nothing. \<^verbatim>\<open>client.refreshToken\<close> and \<^verbatim>\<open>hookManager.trigger\<close> never throw, so
  the \<^verbatim>\<open>catch\<close> branch has no way in; \<^verbatim>\<open>finally\<close> resets the flag.
\<close>

definition refreshAccessToken :: "env \<Rightarrow> engine \<Rightarrow> bool \<times> engine" where
  "refreshAccessToken e s =
     (if cap_isRefreshingToken e then (cap_isAuthenticated e, s)
      else
        (let s1 = s\<lparr>isRefreshingToken := True\<rparr>;
             (success, s2) = client_refreshToken (config e) (the_server e) s1;
             s3 = s2\<lparr>isAuthenticated := success\<rparr>
         in (success, s3\<lparr>isRefreshingToken := False\<rparr>)))"

text \<open>
  \<^verbatim>\<open>fetchUserData\<close> calls itself from both retry branches with nothing that counts
  the calls, so the recursion is given fuel: \<open>None\<close> is "has not returned within the
  fuel", and each level of fuel pays for one \<^verbatim>\<open>client.getUser()\<close>.
\<close>

fun fetchUserData :: "nat \<Rightarrow> env \<Rightarrow> engine \<Rightarrow> engine option" where
  "fetchUserData 0 e s = None"
| "fetchUserData (Suc n) e s =
     (let hasLocalStorageTokens = shouldUseLocalStorage (storage s);
          hasPendingTokens = (pendingTokens s \<noteq> None);
          (r, s1) = client_getUser (config e) (the_server e) s
      in case r of
           Inr userData \<Rightarrow>
             (let finalUser = (case transformUser e userData of
                                 Some u \<Rightarrow> Some u
                               | None \<Rightarrow> userData);
                  s2 = s1\<lparr>user := finalUser\<rparr>
              in if hasPendingTokens then
                   Some (s2\<lparr>pendingTokens := None, storage := clearTokens (storage s2)\<rparr>)
                 else if \<not> hasLocalStorageTokens then
                   Some (s2\<lparr>storage := clearTokens (storage s2)\<rparr>)
                 else Some s2)
         | Inl err \<Rightarrow>
             (case (str_includes (message err) ''401'', pendingTokens s1) of
                (True, Some p) \<Rightarrow>
                  fetchUserData n e
                    (s1\<lparr>storage := setTokens (access_token p) (refresh_token p) (storage s1),
                        pendingTokens := None\<rparr>)
              | _ \<Rightarrow>
                  if str_includes (message err) ''401'' \<or> str_includes (message err) ''422''
                  then
                    (let (refreshed, s2) = refreshAccessToken e s1
                     in if refreshed then fetchUserData n e s2
                        else Some (s2\<lparr>user := None\<rparr>))
                  else Some (s1\<lparr>user := None\<rparr>)))"

definition completeAuthentication :: "nat \<Rightarrow> env \<Rightarrow> auth_tokens \<Rightarrow> engine \<Rightarrow> engine option" where
  "completeAuthentication n e tokens s =
     fetchUserData n e (s\<lparr>pendingTokens := Some tokens, isAuthenticated := True\<rparr>)"

text \<open>
  \<^verbatim>\<open>checkAuth\<close>. Nothing in its \<^verbatim>\<open>try\<close> block throws (storage, client and
  \<^verbatim>\<open>fetchUserData\<close> catch their own errors), so its \<^verbatim>\<open>catch\<close> branch has no way
  in; \<^verbatim>\<open>finally\<close> sets \<^verbatim>\<open>loading\<close> to false on every exit.
\<close>

definition logged_out :: "engine \<Rightarrow> engine" where
  "logged_out s =
     (s\<lparr>isAuthenticated := False, user := None, storage := clearTokens (storage s)\<rparr>)
       \<lparr>loading := False\<rparr>"

definition checkAuth_session :: "nat \<Rightarrow> env \<Rightarrow> engine \<Rightarrow> engine option" where
  "checkAuth_session n e s =
     (let (isAuth, s1) = client_checkAuth (config e) (the_server e) s
      in if isAuth then
           map_option (\<lambda>s'. s'\<lparr>loading := False\<rparr>)
             (fetchUserData n e (s1\<lparr>isAuthenticated := True\<rparr>))
         else
           (let (refreshed, s2) = refreshAccessToken e s1
            in if refreshed then
                 map_option (\<lambda>s'. s'\<lparr>loading := False\<rparr>)
                   (fetchUserData n e (s2\<lparr>isAuthenticated := True\<rparr>))
               else Some (logged_out s2)))"

definition checkAuth :: "nat \<Rightarrow> env \<Rightarrow> engine \<Rightarrow> engine option" where
  "checkAuth n e s =
     (let usingLocalStorage = shouldUseLocalStorage (storage s);
          hasPendingTokens = (pendingTokens s \<noteq> None)
      in if hasPendingTokens then Some (s\<lparr>loading := False\<rparr>)
         else if usingLocalStorage
                 \<and> \<not> truthy (getAccessToken (storage s)) \<and> truthy (getRefreshToken (storage s))
         then
           (let (refreshed, s1) = refreshAccessToken e s
            in if \<not> refreshed then Some (logged_out s1)
               else checkAuth_session n e s1)
         else checkAuth_session n e s)"

text \<open>
  \<^verbatim>\<open>login\<close> and \<^verbatim>\<open>signup\<close> return a result object and never throw. Two
  things take them to their \<^verbatim>\<open>catch\<close> branch: the client call throwing, and the
  read of \<^verbatim>\<open>response.access_token\<close> on a \<^verbatim>\<open>null\<close> response (hook handlers
  that throw are caught by \<^verbatim>\<open>trigger\<close>, and \<^verbatim>\<open>completeAuthentication\<close> catches
  its own errors). That branch calls \<^verbatim>\<open>setIsAuthenticated(false)\<close> and nothing
  else. A response without both tokens leaves the state as it is.
\<close>

record op_result =
  res_success :: bool
  res_error :: "string option"

definition login ::
  "nat \<Rightarrow> env \<Rightarrow> string \<Rightarrow> string \<Rightarrow> engine \<Rightarrow> (op_result \<times> engine) option" where
  "login n e em pw s =
     (let s0 = s\<lparr>storage := clearTokens (storage s), pendingTokens := None\<rparr>;
          (r, s1) = client_login (config e) (the_server e) em pw s0
      in case r of
           Inl err \<Rightarrow>
             Some (\<lparr>res_success = False, res_error = Some (message err)\<rparr>,
                   s1\<lparr>isAuthenticated := False\<rparr>)
         | Inr (JNull m) \<Rightarrow>
             Some (\<lparr>res_success = False, res_error = Some m\<rparr>,
                   s1\<lparr>isAuthenticated := False\<rparr>)
         | Inr (JObject resp) \<Rightarrow>
             if truthy (b_access_token resp) \<and> truthy (b_refresh_token resp) then
               map_option (\<lambda>s'. (\<lparr>res_success = True, res_error = None\<rparr>, s'))
                 (completeAuthentication n e
                    \<lparr>access_token = the (b_access_token resp),
                     refresh_token = the (b_refresh_token resp)\<rparr> s1)
             else Some (\<lparr>res_success = True, res_error = None\<rparr>, s1))"

definition signup ::
  "nat \<Rightarrow> env \<Rightarrow> signup_credentials \<Rightarrow> engine \<Rightarrow> (op_result \<times> engine) option" where
  "signup n e credentials s =
     (let s0 = s\<lparr>storage := clearTokens (storage s), pendingTokens := None\<rparr>;
          (r, s1) = client_signup (config e) (the_server e) credentials s0
      in case r of
           Inl err \<Rightarrow>
             Some (\<lparr>res_success = False, res_error = Some (message err)\<rparr>,
                   s1\<lparr>isAuthenticated := False\<rparr>)
         | Inr (JNull m) \<Rightarrow>
             Some (\<lparr>res_success = False, res_error = Some m\<rparr>,
                   s1\<lparr>isAuthenticated := False\<rparr>)
         | Inr (JObject resp) \<Rightarrow>
             if truthy (b_access_token resp) \<and> truthy (b_refresh_token resp) then
               map_option (\<lambda>s'. (\<lparr>res_success = True, res_error = None\<rparr>, s'))
                 (completeAuthentication n e
                    \<lparr>access_token = the (b_access_token resp),
                     refresh_token = the (b_refresh_token resp)\<rparr> s1)
             else Some (\<lparr>res_success = True, res_error = None\<rparr>, s1))"

text \<open>
  \<^verbatim>\<open>logout\<close>: the \<^verbatim>\<open>try\<close> branch resets the two state cells, the storage and the
  pending pair; the \<^verbatim>\<open>catch\<close> branch, taken when \<^verbatim>\<open>client.logout()\<close> throws,
  resets the storage and the pending pair only.
\<close>

definition logout :: "env \<Rightarrow> engine \<Rightarrow> op_result \<times> engine" where
  "logout e s =
     (case client_logout (config e) (the_server e) s of
        (Inr _, s1) \<Rightarrow>
          (\<lparr>res_success = True, res_error = None\<rparr>,
           s1\<lparr>isAuthenticated := False, user := None, storage := clearTokens (storage s1),
              pendingTokens := None\<rparr>)
      | (Inl err, s1) \<Rightarrow>
          (\<lparr>res_success = False, res_error = Some (message err)\<rparr>,
           s1\<lparr>storage := clearTokens (storage s1), pendingTokens := None\<rparr>))"

text \<open>
  The mount effect. \<^verbatim>\<open>extractOAuthTokensFromUrl\<close> reads the page's URL: its
  \<^verbatim>\<open>href\<close> as a string and the query parameters \<^verbatim>\<open>new URL(href)\<close> parses out
  of it (the first value of a key is the one \<^verbatim>\<open>searchParams.get\<close> returns). The
  provider's storage uses the default adapter, so \<^verbatim>\<open>typeof window\<close> is the fact its
  adapter reads. Removing the two parameters from the address bar
  (\<^verbatim>\<open>history.replaceState\<close>) changes nothing the engine reads again.
\<close>

record location =
  href :: string
  searchParams :: "(string \<times> string) list"

definition extractOAuthTokensFromUrl :: "location \<Rightarrow> engine \<Rightarrow> auth_tokens option \<times> engine" where
  "extractOAuthTokensFromUrl loc s =
     (if \<not> window_defined (adapter (storage s)) then (None, s)
      else if \<not> str_includes (href loc) ''access_token=''
              \<and> \<not> str_includes (href loc) ''refresh_token=''
      then (None, s)
      else
        (let accessToken = map_of (searchParams loc) ''access_token'';
             refreshToken = map_of (searchParams loc) ''refresh_token''
         in if truthy accessToken \<and> truthy refreshToken then
              (Some \<lparr>access_token = the accessToken, refresh_token = the refreshToken\<rparr>,
               s\<lparr>storage := clearTokens (storage s), pendingTokens := None\<rparr>)
            else (None, s)))"

definition initialize :: "nat \<Rightarrow> env \<Rightarrow> location \<Rightarrow> engine \<Rightarrow> engine option" where
  "initialize n e loc s =
     (if hasCheckedAuth s then Some s
      else
        (let s0 = s\<lparr>hasCheckedAuth := True\<rparr>;
             (oauthTokens, s1) = extractOAuthTokensFromUrl loc s0
         in case oauthTokens of
              Some tokens \<Rightarrow>
                map_option (\<lambda>s'. s'\<lparr>loading := False\<rparr>) (completeAuthentication n e tokens s1)
            | None \<Rightarrow> checkAuth n e s1))"

section \<open>Two refresh calls in flight\<close>

text \<open>
  An \<^verbatim>\<open>async\<close> function runs until its first \<^verbatim>\<open>await\<close> and is resumed later, so a
  second call issued in the same tick starts while the first is suspended. For that, the
  refresh is cut at its suspension points: up to the call of \<^verbatim>\<open>fetch\<close> (the request is
  in flight, or \<^verbatim>\<open>refreshToken\<close> has already decided on \<^verbatim>\<open>false\<close>), and from the
  response on. \<open>refreshToken_issue\<close> returns what is in flight: the value of
  \<^verbatim>\<open>usingLocalStorage\<close> the call holds and the response its request will get.
\<close>

definition refreshToken_issue ::
  "auth_config \<Rightarrow> server \<Rightarrow> 'a world_scheme \<Rightarrow> (bool \<times> response) option \<times> 'a world_scheme" where
  "refreshToken_issue cfg srv w =
     (let usingLocalStorage = shouldUseLocalStorage (storage w);
          headers = [''Content-Type'' \<mapsto> ''application/json'']
      in if usingLocalStorage then
           (case getRefreshToken (storage w) of
              None \<Rightarrow> (None, w)
            | Some refreshToken \<Rightarrow>
                if refreshToken \<noteq> [] then
                  (let (resp, w1) =
                         fetch srv (refresh_request cfg
                           (headers(''Authorization'' \<mapsto> ''Bearer '' @ refreshToken))) w
                   in (Some (usingLocalStorage, resp), w1))
                else (None, w))
         else
           (let (resp, w1) = fetch srv (refresh_request cfg headers) w
            in (Some (usingLocalStorage, resp), w1)))"

definition refreshToken_settle ::
  "(bool \<times> response) option \<Rightarrow> 'a world_scheme \<Rightarrow> bool \<times> 'a world_scheme" where
  "refreshToken_settle p w =
     (case p of
        None \<Rightarrow> (False, w)
      | Some (usingLocalStorage, resp) \<Rightarrow> refreshToken_receive usingLocalStorage resp w)"

text \<open>The rest of \<^verbatim>\<open>refreshAccessToken\<close> once \<^verbatim>\<open>client.refreshToken()\<close> resolves.\<close>

definition refresh_settle :: "(bool \<times> response) option \<Rightarrow> engine \<Rightarrow> bool \<times> engine" where
  "refresh_settle p s =
     (let (success, s2) = refreshToken_settle p s;
          s3 = s2\<lparr>isAuthenticated := success\<rparr>
      in (success, s3\<lparr>isRefreshingToken := False\<rparr>))"

text \<open>
  Two calls of the \<^verbatim>\<open>refreshAccessToken\<close> of one render, issued in the same tick
  (as in \<^verbatim>\<open>Promise.all([refreshAccessToken(), refreshAccessToken()])\<close>). Both read the
  \<^verbatim>\<open>isRefreshingToken\<close> of that render's closure, the same constant. The first call
  passes the guard, calls \<^verbatim>\<open>setIsRefreshingToken(true)\<close> and suspends at its first
  \<^verbatim>\<open>await\<close>; the second does the same; then each sends its request, and each is
  resumed with its response, in the order of the calls.
\<close>

definition refreshAccessToken_pair :: "env \<Rightarrow> engine \<Rightarrow> (bool \<times> bool) \<times> engine" where
  "refreshAccessToken_pair e s =
     (if cap_isRefreshingToken e then ((cap_isAuthenticated e, cap_isAuthenticated e), s)
      else
        (let s1 = s\<lparr>isRefreshingToken := True\<rparr>;
             s2 = s1\<lparr>isRefreshingToken := True\<rparr>;
             (p1, s3) = refreshToken_issue (config e) (the_server e) s2;
             (p2, s4) = refreshToken_issue (config e) (the_server e) s3;
             (r1, s5) = refresh_settle p1 s4;
             (r2, s6) = refresh_settle p2 s5
         in ((r1, r2), s6)))"

section \<open>Vocabulary of the statements\<close>

text \<open>The number of requests of one client method in a log.\<close>

definition calls_of :: "client_op \<Rightarrow> http_request list \<Rightarrow> nat" where
  "calls_of opn lg = length (filter (\<lambda>rq. rq_op rq = opn) lg)"



text \<open>
  The answer makes \<^verbatim>\<open>client.checkAuth()\<close> return true: 2xx, a JSON body other than
  \<^verbatim>\<open>null\<close>, and no \<^verbatim>\<open>authenticated: false\<close> in it.
\<close>

definition confirms :: "response \<Rightarrow> bool" where
  "confirms resp =
     (case resp of
        NetworkError _ \<Rightarrow> False
      | Http status b \<Rightarrow>
          response_ok status
          \<and> (case b of
                NotJson _ \<Rightarrow> False
              | JsonNull _ \<Rightarrow> False
              | Json d \<Rightarrow> b_authenticated d \<noteq> Some False))"






text \<open>The invariant the data model states: not authenticated implies no profile.\<close>

definition session_inv :: "engine \<Rightarrow> bool" where
  "session_inv s = (isAuthenticated s \<or> user s = None)"

section \<open>Concrete configurations, states and servers\<close>

definition cfg0 :: auth_config where
  "cfg0 =
     \<lparr>apiBaseUrl = ''https://api.example.com'', apiPrefix = ''/api/auth'',
      customHeaders = Map.empty, endpoints = DEFAULT_ENDPOINTS\<rparr>"

definition alice :: user_profile where
  "alice =
     \<lparr>id = ''1'', username = ''alice'', email = ''alice@example.com'',
      first_name = ''Alice'', last_name = ''A'', is_verified = True\<rparr>"

text \<open>A browser with nothing stored, and an environment without \<^verbatim>\<open>window\<close>.\<close>

definition ts_browser :: token_storage where
  "ts_browser =
     \<lparr>adapter = \<lparr>window_defined = True, ls_denied = False, ls_items = Map.empty\<rparr>,
      strategy = CookieFirst\<rparr>"

definition ts_no_window :: token_storage where
  "ts_no_window =
     \<lparr>adapter = \<lparr>window_defined = False, ls_denied = False, ls_items = Map.empty\<rparr>,
      strategy = CookieFirst\<rparr>"

text \<open>The provider right after mounting, and a session signed in through cookies.\<close>

definition s_fresh :: engine where
  "s_fresh =
     \<lparr>storage = ts_browser, net_log = [], isAuthenticated = False, loading = True,
      isRefreshingToken = False, user = None, hasCheckedAuth = False, pendingTokens = None\<rparr>"

definition s_signed_in :: engine where
  "s_signed_in =
     \<lparr>storage = ts_browser, net_log = [], isAuthenticated = True, loading = False,
      isRefreshingToken = False, user = Some alice, hasCheckedAuth = True,
      pendingTokens = None\<rparr>"

definition tokens_ab :: auth_tokens where
  "tokens_ab = \<lparr>access_token = ''a'', refresh_token = ''b''\<rparr>"

text \<open>The state \<^verbatim>\<open>completeAuthentication\<close> hands to the profile fetch.\<close>

definition s_pending :: engine where
  "s_pending = s_fresh\<lparr>pendingTokens := Some tokens_ab, isAuthenticated := True\<rparr>"

definition env_of :: "server \<Rightarrow> env" where
  "env_of srv =
     \<lparr>config = cfg0, the_server = srv, transformUser = (\<lambda>u. u),
      cap_isRefreshingToken = False, cap_isAuthenticated = False\<rparr>"

definition srv_unreachable :: server where
  "srv_unreachable k rq = NetworkError ''Failed to fetch''"

definition srv_401 :: server where
  "srv_401 k rq = Http 401 (Json empty_body)"

definition srv_no_content :: server where
  "srv_no_content k rq = Http 204 (NotJson ''Unexpected end of JSON input'')"

text \<open>Every request is answered 200 with the body \<^verbatim>\<open>null\<close>.\<close>

definition srv_null :: server where
  "srv_null k rq = Http 200 (JsonNull ''Cannot read properties of null'')"

definition srv_ok_empty :: server where
  "srv_ok_empty k rq = Http 200 (Json empty_body)"

definition body_alice :: json_body where
  "body_alice = empty_body\<lparr>b_user := Some alice\<rparr>"

text \<open>Every request succeeds; the profile is Alice's.\<close>

definition srv_alice :: server where
  "srv_alice k rq = Http 200 (Json body_alice)"




text \<open>
  Refresh always succeeds; the profile endpoint answers 401 to the first four requests
  of the log and serves the profile afterwards (requests 0, 2, 4 and 6 are profile
  fetches, 1, 3, 5 and 7 refreshes).
\<close>

definition srv_late :: server where
  "srv_late k rq =
     (if rq_op rq = OpGetUser \<and> k < 8 then Http 401 (Json empty_body)
      else Http 200 (Json body_alice))"


text \<open>Fallback mode: the pair \<open>a\<close>, \<open>b\<close> is persisted.\<close>

definition s_fallback :: engine where
  "s_fallback = s_fresh\<lparr>storage := setTokens ''a'' ''b'' ts_browser\<rparr>"

text \<open>A signed-in session in fallback mode that still holds a pending pair.\<close>

definition s_signed_in_fallback :: engine where
  "s_signed_in_fallback =
     s_signed_in\<lparr>storage := setTokens ''a'' ''b'' ts_browser, pendingTokens := Some tokens_ab\<rparr>"

text \<open>A pending pair next to an older persisted pair.\<close>

definition s_pending_stored :: engine where
  "s_pending_stored = s_pending\<lparr>storage := setTokens ''x'' ''y'' ts_browser\<rparr>"



text \<open>
  The environment of a \<^verbatim>\<open>refreshAccessToken\<close> whose closure was created by a render
  that saw a refresh in flight on an authenticated session.
\<close>

definition env_in_flight :: "server \<Rightarrow> env" where
  "env_in_flight srv = (env_of srv)\<lparr>cap_isRefreshingToken := True, cap_isAuthenticated := True\<rparr>"

text \<open>Login and signup answer with the pair \<open>a\<close>, \<open>b\<close>; every request succeeds.\<close>

definition srv_tokens :: server where
  "srv_tokens k rq =
     (if rq_op rq = OpLogin \<or> rq_op rq = OpSignup
      then Http 200 (Json (body_alice\<lparr>b_access_token := Some ''a'', b_refresh_token := Some ''b''\<rparr>))
      else Http 200 (Json body_alice))"

text \<open>The first request of the log is accepted, every later one is answered 401.\<close>

definition srv_once :: server where
  "srv_once k rq = (if k = 0 then Http 200 (Json empty_body) else Http 401 (Json empty_body))"

text \<open>
  Refresh always succeeds; the profile endpoint answers 401 to the requests among the
  first \<open>2 * m\<close> of the log and serves the profile afterwards.
\<close>

definition srv_after :: "nat \<Rightarrow> server" where
  "srv_after m k rq =
     (if rq_op rq = OpGetUser \<and> k < 2 * m then Http 401 (Json empty_body)
      else Http 200 (Json body_alice))"

text \<open>The profile endpoint answers 401 with an \<^verbatim>\<open>error\<close> field in the body.\<close>

definition srv_401_error :: server where
  "srv_401_error k rq = Http 401 (Json (empty_body\<lparr>b_error := Some ''Unauthorized''\<rparr>))"

text \<open>The address an OAuth provider redirects back to.\<close>

definition loc_oauth :: location where
  "loc_oauth =
     \<lparr>href = ''https://app.example.com/?access_token=a&refresh_token=b'',
      searchParams = [(''access_token'', ''a''), (''refresh_token'', ''b'')]\<rparr>"

definition loc_plain :: location where
  "loc_plain = \<lparr>href = ''https://app.example.com/'', searchParams = []\<rparr>"

section \<open>Properties of the token storage\<close>

lemmas storage_defs = setTokens_def getAccessToken_def getRefreshToken_def areCookiesBlocked_def
  clearTokens_def shouldUseLocalStorage_def getItem_def setItem_def adapter_clear_def
  storage_usable_def ACCESS_TOKEN_def REFRESH_TOKEN_def COOKIES_BLOCKED_def

lemma setTokens_flag: "storage_usable ts \<Longrightarrow> areCookiesBlocked (setTokens a r ts)"
  by (simp add: storage_defs)

lemma setTokens_usable: "storage_usable (setTokens a r ts) = storage_usable ts"
  by (simp add: storage_defs)

lemma setTokens_strategy: "strategy (setTokens a r ts) = strategy ts"
  by (simp add: storage_defs)

lemma clearTokens_strategy: "strategy (clearTokens ts) = strategy ts"
  by (simp add: storage_defs)

lemma step_keeps_flag:
  "storage_usable ts \<Longrightarrow> areCookiesBlocked ts \<Longrightarrow> c \<noteq> ClearTokens \<Longrightarrow>
   storage_usable (storage_step ts c) \<and> areCookiesBlocked (storage_step ts c)"
  by (cases c) (simp_all add: setTokens_flag setTokens_usable)

lemma run_keeps_flag:
  "storage_usable ts \<Longrightarrow> areCookiesBlocked ts \<Longrightarrow> ClearTokens \<notin> set cs \<Longrightarrow>
   storage_usable (storage_run ts cs) \<and> areCookiesBlocked (storage_run ts cs)"
proof (induction cs arbitrary: ts)
  case Nil
  then show ?case by (simp add: storage_run_def)
next
  case (Cons c cs)
  from Cons.prems have c: "c \<noteq> ClearTokens" and cs: "ClearTokens \<notin> set cs" by auto
  from step_keeps_flag [OF Cons.prems(1) Cons.prems(2) c]
  have "storage_usable (storage_step ts c)" "areCookiesBlocked (storage_step ts c)" by simp_all
  from Cons.IH [OF this cs] show ?case by (simp add: storage_run_def)
qed

lemma flag_shouldUse: "areCookiesBlocked ts \<Longrightarrow> shouldUseLocalStorage ts"
  by (simp add: shouldUseLocalStorage_def)

lemma run_strategy: "strategy (storage_run ts cs) = strategy ts"
proof (induction cs arbitrary: ts)
  case Nil
  show ?case by (simp add: storage_run_def)
next
  case (Cons c cs)
  have "strategy (storage_step ts c) = strategy ts"
    by (cases c) (simp_all add: setTokens_strategy clearTokens_strategy)
  with Cons.IH [of "storage_step ts c"] show ?case by (simp add: storage_run_def)
qed

lemma clearTokens_reads:
  "getAccessToken (clearTokens ts) = None"
  "getRefreshToken (clearTokens ts) = None"
  "\<not> areCookiesBlocked (clearTokens ts)"
  by (simp_all add: storage_defs)

lemma clear_not_fallback:
  "strategy ts \<noteq> LocalStorageOnly \<Longrightarrow> \<not> shouldUseLocalStorage (clearTokens ts)"
  by (simp add: shouldUseLocalStorage_def clearTokens_strategy clearTokens_reads)

text \<open>
  C9 (Fallback ratchet), as the code has it. \<^verbatim>\<open>setTokens\<close> writes through the
  adapter, and the default adapter drops every write when \<^verbatim>\<open>window\<close> is undefined or
  \<^verbatim>\<open>localStorage\<close> throws. Where the adapter really stores, once \<open>setTokens\<close> has
  been called \<open>shouldUseLocalStorage\<close> is true after any sequence of storage calls
  free of \<open>clearTokens\<close>, whatever the strategy; and a \<open>clearTokens\<close> after that
  sequence makes it false again unless the strategy is localStorage-only.
\<close>

theorem fallback_ratchet:
  "storage_usable ts \<Longrightarrow> ClearTokens \<notin> set cs \<Longrightarrow>
   shouldUseLocalStorage (storage_run (setTokens a r ts) cs)
   \<and> (strategy ts \<noteq> LocalStorageOnly \<longrightarrow>
        \<not> shouldUseLocalStorage (clearTokens (storage_run (setTokens a r ts) cs)))"
proof -
  assume u: "storage_usable ts" and cs: "ClearTokens \<notin> set cs"
  have "storage_usable (setTokens a r ts)" "areCookiesBlocked (setTokens a r ts)"
    using u by (simp_all add: setTokens_flag setTokens_usable)
  from run_keeps_flag [OF this cs]
  have "shouldUseLocalStorage (storage_run (setTokens a r ts) cs)"
    by (simp add: flag_shouldUse)
  moreover have "\<not> shouldUseLocalStorage (clearTokens (storage_run (setTokens a r ts) cs))"
    if "strategy ts \<noteq> LocalStorageOnly"
    using that by (intro clear_not_fallback) (simp add: run_strategy setTokens_strategy)
  ultimately show ?thesis by blast
qed

theorem fallback_ratchet_witness:
  "storage_usable ts_browser
   \<and> ClearTokens \<notin> set [GetAccessToken, SetTokens ''c'' ''d'', ShouldUseLocalStorage]
   \<and> strategy ts_browser \<noteq> LocalStorageOnly
   \<and> shouldUseLocalStorage
       (storage_run (setTokens ''a'' ''b'' ts_browser)
          [GetAccessToken, SetTokens ''c'' ''d'', ShouldUseLocalStorage])
   \<and> \<not> shouldUseLocalStorage
         (clearTokens (storage_run (setTokens ''a'' ''b'' ts_browser)
            [GetAccessToken, SetTokens ''c'' ''d'', ShouldUseLocalStorage]))"
proof -
  have u: "storage_usable ts_browser"
    by (simp add: ts_browser_def storage_usable_def)
  have c: "ClearTokens \<notin> set [GetAccessToken, SetTokens ''c'' ''d'', ShouldUseLocalStorage]"
    by simp
  have s: "strategy ts_browser \<noteq> LocalStorageOnly"
    by (simp add: ts_browser_def)
  from fallback_ratchet [OF u c, of "''a''" "''b''"] u c s show ?thesis by blast
qed

text \<open>
  C9 as stated, for every storage: without \<^verbatim>\<open>window\<close> the three writes of
  \<open>setTokens\<close> are dropped and, under cookie-first, \<open>shouldUseLocalStorage\<close> is
  false right after it.
\<close>

theorem fallback_ratchet_counterexample:
  "\<not> shouldUseLocalStorage (storage_run (setTokens ''a'' ''b'' ts_no_window) [])"
  by (simp add: storage_run_def ts_no_window_def storage_defs)

section \<open>Properties of the client\<close>

lemma request_eq:
  "request cfg srv opn ep m body ia w =
     (case srv (length (net_log w)) (build_request cfg opn ep m body ia (storage w)) of
        NetworkError msg \<Rightarrow> Inl (Error msg)
      | Http st b \<Rightarrow>
          if \<not> response_ok st then Inl (Error (error_message st b))
          else (case b of
                  NotJson msg \<Rightarrow> Inl (Error msg)
                | JsonNull msg \<Rightarrow> Inr (JNull msg)
                | Json d \<Rightarrow> Inr (JObject d)),
      w\<lparr>net_log := net_log w @ [build_request cfg opn ep m body ia (storage w)]\<rparr>)"
  by (simp add: request_def fetch_def split: response.splits response_body.splits)

lemma client_checkAuth_eq:
  "client_checkAuth cfg srv w =
     (case srv (length (net_log w)) (checkAuth_request cfg (storage w)) of
        NetworkError msg \<Rightarrow> False
      | Http st b \<Rightarrow>
          response_ok st \<and>
          (case b of
             NotJson msg \<Rightarrow> False
           | JsonNull msg \<Rightarrow> False
           | Json d \<Rightarrow> (case b_authenticated d of None \<Rightarrow> True | Some a \<Rightarrow> a)),
      w\<lparr>net_log := net_log w @ [checkAuth_request cfg (storage w)]\<rparr>)"
  by (simp add: client_checkAuth_def request_eq checkAuth_request_def
           split: response.splits response_body.splits)

text \<open>
  C10, as the code has it. \<open>client_checkAuth\<close> has a boolean for every response
  (its whole body is inside \<^verbatim>\<open>try/catch\<close>, so it never throws): false when
  \<^verbatim>\<open>fetch\<close> rejects, when the status is not 2xx, when a 2xx body does not parse, and
  when a 2xx body is \<^verbatim>\<open>null\<close>; true when a 2xx body is any other JSON value without
  an \<^verbatim>\<open>authenticated\<close> field; the field's value when it is there.
\<close>

theorem client_checkAuth_never_throws:
  "(srv (length (net_log w)) (checkAuth_request cfg (storage w)) = NetworkError m
      \<longrightarrow> \<not> fst (client_checkAuth cfg srv w))
   \<and> (srv (length (net_log w)) (checkAuth_request cfg (storage w)) = Http st b
        \<and> \<not> response_ok st \<longrightarrow> \<not> fst (client_checkAuth cfg srv w))
   \<and> (srv (length (net_log w)) (checkAuth_request cfg (storage w)) = Http st (NotJson m)
        \<longrightarrow> \<not> fst (client_checkAuth cfg srv w))
   \<and> (srv (length (net_log w)) (checkAuth_request cfg (storage w)) = Http st (JsonNull m)
        \<longrightarrow> \<not> fst (client_checkAuth cfg srv w))
   \<and> (srv (length (net_log w)) (checkAuth_request cfg (storage w)) = Http st (Json d)
        \<and> response_ok st \<and> b_authenticated d = None \<longrightarrow> fst (client_checkAuth cfg srv w))
   \<and> (srv (length (net_log w)) (checkAuth_request cfg (storage w)) = Http st (Json d)
        \<and> response_ok st \<and> b_authenticated d = Some a
        \<longrightarrow> fst (client_checkAuth cfg srv w) = a)"
  by (simp add: client_checkAuth_eq)

theorem client_checkAuth_never_throws_witness:
  "srv_unreachable (length (net_log s_fresh)) (checkAuth_request cfg0 (storage s_fresh))
     = NetworkError ''Failed to fetch''
   \<and> \<not> fst (client_checkAuth cfg0 srv_unreachable s_fresh)
   \<and> srv_401 (length (net_log s_fresh)) (checkAuth_request cfg0 (storage s_fresh))
     = Http 401 (Json empty_body)
   \<and> \<not> response_ok 401
   \<and> \<not> fst (client_checkAuth cfg0 srv_401 s_fresh)
   \<and> srv_no_content (length (net_log s_fresh)) (checkAuth_request cfg0 (storage s_fresh))
     = Http 204 (NotJson ''Unexpected end of JSON input'')
   \<and> \<not> fst (client_checkAuth cfg0 srv_no_content s_fresh)
   \<and> srv_null (length (net_log s_fresh)) (checkAuth_request cfg0 (storage s_fresh))
     = Http 200 (JsonNull ''Cannot read properties of null'')
   \<and> \<not> fst (client_checkAuth cfg0 srv_null s_fresh)
   \<and> srv_ok_empty (length (net_log s_fresh)) (checkAuth_request cfg0 (storage s_fresh))
     = Http 200 (Json empty_body)
   \<and> response_ok 200 \<and> b_authenticated empty_body = None
   \<and> fst (client_checkAuth cfg0 srv_ok_empty s_fresh)"
proof -
  have 1: "srv_unreachable (length (net_log s_fresh)) (checkAuth_request cfg0 (storage s_fresh))
     = NetworkError ''Failed to fetch''"
    by (simp add: srv_unreachable_def)
  have 2: "srv_401 (length (net_log s_fresh)) (checkAuth_request cfg0 (storage s_fresh))
     = Http 401 (Json empty_body)" "\<not> response_ok 401"
    by (simp_all add: srv_401_def response_ok_def)
  have 3: "srv_no_content (length (net_log s_fresh)) (checkAuth_request cfg0 (storage s_fresh))
     = Http 204 (NotJson ''Unexpected end of JSON input'')"
    by (simp add: srv_no_content_def)
  have 4: "srv_ok_empty (length (net_log s_fresh)) (checkAuth_request cfg0 (storage s_fresh))
     = Http 200 (Json empty_body)" "response_ok 200" "b_authenticated empty_body = None"
    by (simp_all add: srv_ok_empty_def response_ok_def empty_body_def)
  have 5: "srv_null (length (net_log s_fresh)) (checkAuth_request cfg0 (storage s_fresh))
     = Http 200 (JsonNull ''Cannot read properties of null'')"
    by (simp add: srv_null_def)
  from client_checkAuth_never_throws
         [where srv = srv_unreachable and w = s_fresh and cfg = cfg0 and m = "''Failed to fetch''"] 1
  have a: "\<not> fst (client_checkAuth cfg0 srv_unreachable s_fresh)" by blast
  from client_checkAuth_never_throws
         [where srv = srv_401 and w = s_fresh and cfg = cfg0 and st = 401 and b = "Json empty_body"] 2
  have b: "\<not> fst (client_checkAuth cfg0 srv_401 s_fresh)" by blast
  from client_checkAuth_never_throws
         [where srv = srv_no_content and w = s_fresh and cfg = cfg0 and st = 204
            and m = "''Unexpected end of JSON input''"] 3
  have c: "\<not> fst (client_checkAuth cfg0 srv_no_content s_fresh)" by blast
  from client_checkAuth_never_throws
         [where srv = srv_ok_empty and w = s_fresh and cfg = cfg0 and st = 200 and d = empty_body] 4
  have d: "fst (client_checkAuth cfg0 srv_ok_empty s_fresh)" by blast
  from client_checkAuth_never_throws
         [where srv = srv_null and w = s_fresh and cfg = cfg0 and st = 200
            and m = "''Cannot read properties of null''"] 5
  have e: "\<not> fst (client_checkAuth cfg0 srv_null s_fresh)" by blast
  from 1 2 3 4 5 a b c d e show ?thesis by blast
qed

text \<open>
  C10 as stated (every 2xx response whose JSON body lacks the \<^verbatim>\<open>authenticated\<close>
  field gives true): the body \<^verbatim>\<open>null\<close> is JSON and has no such field, the read of
  \<^verbatim>\<open>response.authenticated\<close> throws on it, and the \<^verbatim>\<open>catch\<close> returns false.
\<close>

theorem client_checkAuth_null_counterexample:
  "srv_null (length (net_log s_fresh)) (checkAuth_request cfg0 (storage s_fresh))
     = Http 200 (JsonNull ''Cannot read properties of null'')
   \<and> response_ok 200
   \<and> \<not> fst (client_checkAuth cfg0 srv_null s_fresh)"
  by (simp add: srv_null_def response_ok_def client_checkAuth_eq)

lemma refreshToken_send_eq:
  "refreshToken_send cfg srv u hs w =
     (case srv (length (net_log w)) (refresh_request cfg hs) of
        NetworkError m \<Rightarrow> (False, w\<lparr>net_log := net_log w @ [refresh_request cfg hs]\<rparr>)
      | Http st b \<Rightarrow>
          if \<not> response_ok st then (False, w\<lparr>net_log := net_log w @ [refresh_request cfg hs]\<rparr>)
          else (case b of
                  NotJson m \<Rightarrow> (False, w\<lparr>net_log := net_log w @ [refresh_request cfg hs]\<rparr>)
                | JsonNull m \<Rightarrow> (False, w\<lparr>net_log := net_log w @ [refresh_request cfg hs]\<rparr>)
                | Json d \<Rightarrow>
                    (True,
                     if truthy (b_access_token d) \<and> truthy (b_refresh_token d) \<and> u
                     then w\<lparr>net_log := net_log w @ [refresh_request cfg hs],
                            storage := setTokens (the (b_access_token d))
                                         (the (b_refresh_token d)) (storage w)\<rparr>
                     else w\<lparr>net_log := net_log w @ [refresh_request cfg hs]\<rparr>)))"
  by (simp add: refreshToken_send_def refreshToken_receive_def fetch_def
        split: response.splits response_body.splits)

lemma refreshToken_send_log:
  "net_log (snd (refreshToken_send cfg srv u hs w)) = net_log w @ [refresh_request cfg hs]"
  by (simp add: refreshToken_send_eq split: response.splits response_body.splits)

lemma refreshToken_send_fst:
  "fst (refreshToken_send cfg srv u hs w) =
     (\<exists>st d. srv (length (net_log w)) (refresh_request cfg hs) = Http st (Json d) \<and> response_ok st)"
  by (simp add: refreshToken_send_eq split: response.splits response_body.splits)

lemma refreshToken_send_result:
  assumes "refreshToken_send cfg srv u hs w = (success, w')"
  shows "net_log w' = net_log w @ [refresh_request cfg hs]"
    and "success =
      (\<exists>st d. srv (length (net_log w)) (refresh_request cfg hs) = Http st (Json d) \<and> response_ok st)"
proof -
  from assms have "w' = snd (refreshToken_send cfg srv u hs w)"
    and "success = fst (refreshToken_send cfg srv u hs w)" by simp_all
  then show "net_log w' = net_log w @ [refresh_request cfg hs]"
    and "success =
      (\<exists>st d. srv (length (net_log w)) (refresh_request cfg hs) = Http st (Json d) \<and> response_ok st)"
    by (simp_all only: refreshToken_send_log refreshToken_send_fst)
qed

lemma rq_headers_refresh_request: "rq_headers (refresh_request cfg hs) = hs"
  by (simp add: refresh_request_def)

text \<open>
  C8, as the code has it. \<open>client_refreshToken\<close> returns a boolean for every
  response and issues at most one request. It is true exactly when a request was issued
  and answered 2xx with a body that parses to a JSON value other than \<^verbatim>\<open>null\<close>
  (the constructor \<open>Json\<close>); so a rejected \<^verbatim>\<open>fetch\<close>, a status outside 2xx, a
  2xx body that does not parse and a 2xx \<^verbatim>\<open>null\<close> body all give false. It issues no
  request (and returns false) exactly when fallback mode is active and no non-empty
  refresh token is stored. In fallback mode the request's bearer is the stored refresh
  token; otherwise the request has no \<^verbatim>\<open>Authorization\<close> header.
\<close>

theorem client_refreshToken_result:
  "client_refreshToken cfg srv w = (success, w') \<Longrightarrow>
   (success \<longleftrightarrow>
      (\<exists>rq st d. net_log w' = net_log w @ [rq]
         \<and> srv (length (net_log w)) rq = Http st (Json d) \<and> response_ok st))
   \<and> (net_log w' = net_log w \<or> (\<exists>rq. net_log w' = net_log w @ [rq]))
   \<and> (net_log w' = net_log w \<longleftrightarrow>
        shouldUseLocalStorage (storage w) \<and> \<not> truthy (getRefreshToken (storage w)))
   \<and> (\<forall>rq. net_log w' = net_log w @ [rq] \<and> shouldUseLocalStorage (storage w) \<longrightarrow>
        (\<exists>t. getRefreshToken (storage w) = Some t
           \<and> rq_headers rq ''Authorization'' = Some (''Bearer '' @ t)))
   \<and> (\<forall>rq. net_log w' = net_log w @ [rq] \<and> \<not> shouldUseLocalStorage (storage w) \<longrightarrow>
        rq_headers rq ''Authorization'' = None)"
proof -
  assume r: "client_refreshToken cfg srv w = (success, w')"
  show ?thesis
  proof (cases "shouldUseLocalStorage (storage w)")
    case False
    with r have e: "refreshToken_send cfg srv False [''Content-Type'' \<mapsto> ''application/json''] w
        = (success, w')"
      by (simp add: client_refreshToken_def)
    note refreshToken_send_result [OF e]
    then show ?thesis using False
      by (simp add: rq_headers_refresh_request)
  next
    case True
    show ?thesis
    proof (cases "truthy (getRefreshToken (storage w))")
      case f: False
      with r True have "success = False" "w' = w"
        by (auto simp: client_refreshToken_def truthy_def split: option.splits if_splits)
      with True f show ?thesis by simp
    next
      case t: True
      then obtain tok where tok: "getRefreshToken (storage w) = Some tok" "tok \<noteq> []"
        by (auto simp: truthy_def split: option.splits)
      with r True have e: "refreshToken_send cfg srv True
          ([''Content-Type'' \<mapsto> ''application/json''](''Authorization'' \<mapsto> ''Bearer '' @ tok)) w
        = (success, w')"
        by (simp add: client_refreshToken_def)
      note refreshToken_send_result [OF e]
      then show ?thesis using True t tok
        by (simp add: rq_headers_refresh_request)
    qed
  qed
qed

text \<open>
  C8 as stated (true if and only if the response is 2xx): a 204 with an empty body is
  2xx, \<^verbatim>\<open>response.json()\<close> throws on it, and the \<^verbatim>\<open>catch\<close> returns false.
\<close>

theorem client_refreshToken_counterexample:
  "srv_no_content (length (net_log s_fresh))
       (refresh_request cfg0 [''Content-Type'' \<mapsto> ''application/json''])
     = Http 204 (NotJson ''Unexpected end of JSON input'')
   \<and> response_ok 204
   \<and> \<not> fst (client_refreshToken cfg0 srv_no_content s_fresh)"
  by (simp add: srv_no_content_def response_ok_def client_refreshToken_def refreshToken_send_eq
        s_fresh_def ts_browser_def storage_defs)

text \<open>
  The same for a 200 whose body is \<^verbatim>\<open>null\<close>: the body parses, the read of
  \<^verbatim>\<open>data.access_token\<close> throws, and the \<^verbatim>\<open>catch\<close> returns false.
\<close>

lemma client_refreshToken_null:
  "srv_null (length (net_log s_fresh))
       (refresh_request cfg0 [''Content-Type'' \<mapsto> ''application/json''])
     = Http 200 (JsonNull ''Cannot read properties of null'')
   \<and> response_ok 200
   \<and> \<not> fst (client_refreshToken cfg0 srv_null s_fresh)"
  by (simp add: srv_null_def response_ok_def client_refreshToken_def refreshToken_send_eq
        s_fresh_def ts_browser_def storage_defs)

lemma s_fallback_reads:
  "shouldUseLocalStorage (storage s_fallback)"
  "getAccessToken (storage s_fallback) = Some ''a''"
  "getRefreshToken (storage s_fallback) = Some ''b''"
  by (simp_all add: s_fallback_def s_fresh_def ts_browser_def storage_defs)

theorem client_refreshToken_result_witness:
  "fst (client_refreshToken cfg0 srv_alice s_fallback)
   \<and> shouldUseLocalStorage (storage s_fallback)
   \<and> getAccessToken (storage s_fallback) = Some ''a''
   \<and> getRefreshToken (storage s_fallback) = Some ''b''
   \<and> (\<exists>rq. net_log (snd (client_refreshToken cfg0 srv_alice s_fallback)) = net_log s_fallback @ [rq]
         \<and> rq_headers rq ''Authorization'' = Some ''Bearer b'')"
proof -
  have e: "client_refreshToken cfg0 srv_alice s_fallback =
      (fst (client_refreshToken cfg0 srv_alice s_fallback),
       snd (client_refreshToken cfg0 srv_alice s_fallback))"
    by simp
  have l: "net_log (snd (client_refreshToken cfg0 srv_alice s_fallback)) \<noteq> net_log s_fallback"
    using client_refreshToken_result [OF e] s_fallback_reads by (simp add: truthy_def)
  from client_refreshToken_result [OF e] l s_fallback_reads show ?thesis
    by (auto simp: srv_alice_def response_ok_def)
qed

section \<open>Properties of the engine\<close>

lemma client_getUser_eq:
  "client_getUser cfg srv w =
     (case srv (length (net_log w)) (getUser_request cfg (storage w)) of
        NetworkError msg \<Rightarrow> Inl (Error msg)
      | Http st b \<Rightarrow>
          if \<not> response_ok st then Inl (Error (error_message st b))
          else (case b of
                  NotJson msg \<Rightarrow> Inl (Error msg)
                | JsonNull msg \<Rightarrow> Inl (Error msg)
                | Json d \<Rightarrow> Inr (b_user d)),
      w\<lparr>net_log := net_log w @ [getUser_request cfg (storage w)]\<rparr>)"
  by (simp add: client_getUser_def request_eq getUser_request_def
           split: response.splits response_body.splits)

lemma logout_failure:
  assumes "client_logout (config e) (the_server e) s = (Inl err, s1)"
  shows "isAuthenticated (snd (logout e s)) = isAuthenticated s"
    and "user (snd (logout e s)) = user s"
    and "pendingTokens (snd (logout e s)) = None"
    and "getAccessToken (storage (snd (logout e s))) = None"
    and "getRefreshToken (storage (snd (logout e s))) = None"
    and "\<not> areCookiesBlocked (storage (snd (logout e s)))"
    and "fst (logout e s) = \<lparr>res_success = False, res_error = Some (message err)\<rparr>"
  using assms
  by (auto simp: logout_def client_logout_def request_eq clearTokens_reads
      split: prod.splits sum.splits response.splits response_body.splits if_splits)

lemma logout_success:
  assumes "client_logout (config e) (the_server e) s = (Inr u, s1)"
  shows "\<not> isAuthenticated (snd (logout e s))"
    and "user (snd (logout e s)) = None"
    and "pendingTokens (snd (logout e s)) = None"
    and "getAccessToken (storage (snd (logout e s))) = None"
    and "getRefreshToken (storage (snd (logout e s))) = None"
    and "\<not> areCookiesBlocked (storage (snd (logout e s)))"
  using assms
  by (auto simp: logout_def clearTokens_reads split: prod.splits sum.splits)

text \<open>
  C1. The claim asks that a logout whose server call throws still ends with
  authenticated false and the profile absent. The \<^verbatim>\<open>catch\<close> branch of
  \<^verbatim>\<open>logout\<close> clears the storage and the pending pair but calls neither
  \<^verbatim>\<open>setIsAuthenticated(false)\<close> nor \<^verbatim>\<open>setUser(null)\<close>: with the server
  unreachable, a signed-in session stays authenticated with Alice's profile, while its
  tokens and its pending pair are gone.
\<close>

theorem logout_failure_keeps_session:
  "fst (client_logout cfg0 srv_unreachable s_signed_in_fallback) = Inl (Error ''Failed to fetch'')
   \<and> isAuthenticated s_signed_in_fallback
   \<and> isAuthenticated (snd (logout (env_of srv_unreachable) s_signed_in_fallback))
   \<and> user (snd (logout (env_of srv_unreachable) s_signed_in_fallback)) = Some alice
   \<and> pendingTokens (snd (logout (env_of srv_unreachable) s_signed_in_fallback)) = None
   \<and> getAccessToken (storage (snd (logout (env_of srv_unreachable) s_signed_in_fallback))) = None
   \<and> getRefreshToken (storage (snd (logout (env_of srv_unreachable) s_signed_in_fallback))) = None
   \<and> \<not> areCookiesBlocked (storage (snd (logout (env_of srv_unreachable) s_signed_in_fallback)))"
proof -
  have c: "client_logout (config (env_of srv_unreachable)) (the_server (env_of srv_unreachable))
             s_signed_in_fallback
           = (Inl (Error ''Failed to fetch''),
              s_signed_in_fallback\<lparr>net_log := net_log s_signed_in_fallback @
                [build_request cfg0 OpLogout (ep_logout (endpoints cfg0)) ''POST'' NoBody True
                   (storage s_signed_in_fallback)]\<rparr>)"
    by (simp add: client_logout_def request_eq env_of_def srv_unreachable_def)
  have a: "isAuthenticated s_signed_in_fallback" "user s_signed_in_fallback = Some alice"
    by (simp_all add: s_signed_in_fallback_def s_signed_in_def)
  from logout_failure [OF c] a c show ?thesis
    by (simp add: env_of_def)
qed

lemma fetchUserData_success:
  assumes "client_getUser (config e) (the_server e) s = (Inr ud, s1)"
  shows "fetchUserData (Suc n) e s =
     Some (let s2 = s1\<lparr>user := (case transformUser e ud of Some u \<Rightarrow> Some u | None \<Rightarrow> ud)\<rparr>
           in if pendingTokens s \<noteq> None
              then s2\<lparr>pendingTokens := None, storage := clearTokens (storage s2)\<rparr>
              else if \<not> shouldUseLocalStorage (storage s)
              then s2\<lparr>storage := clearTokens (storage s2)\<rparr>
              else s2)"
  using assms by (simp add: Let_def)

text \<open>
  C6. When a pending pair exists and the first \<^verbatim>\<open>client.getUser()\<close> is answered 2xx
  with a JSON body other than \<^verbatim>\<open>null\<close> (the answers on which \<^verbatim>\<open>getUser\<close> does
  not throw), the profile fetch returns (any fuel of at least one) after that single
  request, with the pending pair discarded and the storage cleared: both tokens read as
  absent, the fallback flag is off, and \<open>shouldUseLocalStorage\<close> is false unless the
  strategy forces it; the profile is the transformed server profile and
  \<open>isAuthenticated\<close> is untouched.
\<close>

theorem fetch_success_discards_pending:
  "pendingTokens s \<noteq> None \<Longrightarrow>
   the_server e (length (net_log s)) (getUser_request (config e) (storage s)) = Http st (Json d) \<Longrightarrow>
   response_ok st \<Longrightarrow>
   (\<exists>s'. fetchUserData (Suc n) e s = Some s'
      \<and> pendingTokens s' = None
      \<and> getAccessToken (storage s') = None
      \<and> getRefreshToken (storage s') = None
      \<and> \<not> areCookiesBlocked (storage s')
      \<and> (strategy (storage s) \<noteq> LocalStorageOnly \<longrightarrow> \<not> shouldUseLocalStorage (storage s'))
      \<and> user s' = (case transformUser e (b_user d) of Some u \<Rightarrow> Some u | None \<Rightarrow> b_user d)
      \<and> isAuthenticated s' = isAuthenticated s
      \<and> net_log s' = net_log s @ [getUser_request (config e) (storage s)])"
proof -
  assume p: "pendingTokens s \<noteq> None"
    and r: "the_server e (length (net_log s)) (getUser_request (config e) (storage s)) = Http st (Json d)"
    and ok: "response_ok st"
  from r ok have g: "client_getUser (config e) (the_server e) s =
      (Inr (b_user d), s\<lparr>net_log := net_log s @ [getUser_request (config e) (storage s)]\<rparr>)"
    by (simp add: client_getUser_eq)
  show ?thesis
    unfolding fetchUserData_success [OF g]
    using p by (simp add: Let_def clearTokens_reads clear_not_fallback clearTokens_strategy)
qed

theorem fetch_success_discards_pending_witness:
  "pendingTokens s_pending_stored \<noteq> None
   \<and> areCookiesBlocked (storage s_pending_stored)
   \<and> getAccessToken (storage s_pending_stored) = Some ''x''
   \<and> the_server (env_of srv_alice) (length (net_log s_pending_stored))
        (getUser_request (config (env_of srv_alice)) (storage s_pending_stored))
      = Http 200 (Json body_alice)
   \<and> response_ok 200
   \<and> (\<exists>s'. fetchUserData (Suc 0) (env_of srv_alice) s_pending_stored = Some s'
         \<and> pendingTokens s' = None
         \<and> getAccessToken (storage s') = None
         \<and> getRefreshToken (storage s') = None
         \<and> \<not> areCookiesBlocked (storage s')
         \<and> \<not> shouldUseLocalStorage (storage s')
         \<and> user s' = Some alice
         \<and> isAuthenticated s')"
proof -
  have p: "pendingTokens s_pending_stored \<noteq> None"
    by (simp add: s_pending_stored_def s_pending_def)
  have r: "the_server (env_of srv_alice) (length (net_log s_pending_stored))
        (getUser_request (config (env_of srv_alice)) (storage s_pending_stored))
      = Http 200 (Json body_alice)"
    by (simp add: env_of_def srv_alice_def)
  have ok: "response_ok 200" by (simp add: response_ok_def)
  have st: "areCookiesBlocked (storage s_pending_stored)"
    "getAccessToken (storage s_pending_stored) = Some ''x''"
    "strategy (storage s_pending_stored) \<noteq> LocalStorageOnly"
    "isAuthenticated s_pending_stored"
    by (simp_all add: s_pending_stored_def s_pending_def s_fresh_def ts_browser_def storage_defs)
  have u: "(case transformUser (env_of srv_alice) (b_user body_alice) of
              Some u \<Rightarrow> Some u | None \<Rightarrow> b_user body_alice) = Some alice"
    by (simp add: env_of_def body_alice_def)
  from fetch_success_discards_pending [OF p r ok, of 0] p r ok st u show ?thesis
    by auto
qed

text \<open>
  The same through the mount effect: an OAuth callback whose profile fetch succeeds at
  once ends signed in, with nothing pending and nothing stored.
\<close>

lemma initialize_oauth_cookie_mode:
  "(case initialize 3 (env_of srv_alice) loc_oauth s_fresh of
      None \<Rightarrow> False
    | Some s' \<Rightarrow>
        isAuthenticated s' \<and> user s' = Some alice \<and> pendingTokens s' = None
        \<and> getAccessToken (storage s') = None \<and> \<not> areCookiesBlocked (storage s')
        \<and> \<not> loading s' \<and> hasCheckedAuth s' \<and> calls_of OpGetUser (net_log s') = 1)"
  by code_simp

lemma initialize_once: "hasCheckedAuth s \<Longrightarrow> initialize n e loc s = Some s"
  by (simp add: initialize_def)

lemma refreshToken_send_fields:
  "pendingTokens (snd (refreshToken_send cfg srv u hs s)) = pendingTokens s"
  "user (snd (refreshToken_send cfg srv u hs s)) = user s"
  "isAuthenticated (snd (refreshToken_send cfg srv u hs s)) = isAuthenticated s"
  "loading (snd (refreshToken_send cfg srv u hs s)) = loading s"
  "isRefreshingToken (snd (refreshToken_send cfg srv u hs s)) = isRefreshingToken s"
  "strategy (storage (snd (refreshToken_send cfg srv u hs s))) = strategy (storage s)"
  by (simp_all add: refreshToken_send_eq setTokens_strategy
        split: response.splits response_body.splits)

lemma client_refreshToken_fields:
  "pendingTokens (snd (client_refreshToken cfg srv s)) = pendingTokens s"
  "user (snd (client_refreshToken cfg srv s)) = user s"
  "isAuthenticated (snd (client_refreshToken cfg srv s)) = isAuthenticated s"
  "loading (snd (client_refreshToken cfg srv s)) = loading s"
  "isRefreshingToken (snd (client_refreshToken cfg srv s)) = isRefreshingToken s"
  "strategy (storage (snd (client_refreshToken cfg srv s))) = strategy (storage s)"
  by (simp_all add: client_refreshToken_def refreshToken_send_fields Let_def split: option.splits)

lemma refreshAccessToken_eq:
  "refreshAccessToken e s =
     (if cap_isRefreshingToken e then (cap_isAuthenticated e, s)
      else (fst (client_refreshToken (config e) (the_server e) (s\<lparr>isRefreshingToken := True\<rparr>)),
            (snd (client_refreshToken (config e) (the_server e) (s\<lparr>isRefreshingToken := True\<rparr>)))
              \<lparr>isAuthenticated :=
                 fst (client_refreshToken (config e) (the_server e) (s\<lparr>isRefreshingToken := True\<rparr>)),
               isRefreshingToken := False\<rparr>))"
  by (simp add: refreshAccessToken_def Let_def split: prod.splits)


lemma refreshAccessToken_auth:
  "\<not> cap_isRefreshingToken e \<Longrightarrow>
   isAuthenticated (snd (refreshAccessToken e s)) = fst (refreshAccessToken e s)"
  by (simp add: refreshAccessToken_eq)

lemma refreshAccessToken_in_flight:
  "cap_isRefreshingToken e \<Longrightarrow> refreshAccessToken e s = (cap_isAuthenticated e, s)"
  by (simp add: refreshAccessToken_def)

lemma client_getUser_fields:
  "pendingTokens (snd (client_getUser cfg srv s)) = pendingTokens s"
  "user (snd (client_getUser cfg srv s)) = user s"
  "isAuthenticated (snd (client_getUser cfg srv s)) = isAuthenticated s"
  "loading (snd (client_getUser cfg srv s)) = loading s"
  "storage (snd (client_getUser cfg srv s)) = storage s"
  by (simp_all add: client_getUser_eq)


lemma fetchUserData_promote:
  assumes "pendingTokens s = Some p"
    and "client_getUser (config e) (the_server e) s = (Inl err, s1)"
    and "str_includes (message err) ''401''"
  shows "fetchUserData (Suc n) e s =
     fetchUserData n e
       (s1\<lparr>storage := setTokens (access_token p) (refresh_token p) (storage s1),
           pendingTokens := None\<rparr>)"
proof -
  from assms(2) have "s1 = snd (client_getUser (config e) (the_server e) s)" by simp
  with assms(1) have "pendingTokens s1 = Some p" by (simp add: client_getUser_fields)
  with assms show ?thesis by (simp add: Let_def)
qed

lemma fetchUserData_refresh:
  assumes "client_getUser (config e) (the_server e) s = (Inl err, s1)"
    and "\<not> (str_includes (message err) ''401'' \<and> pendingTokens s \<noteq> None)"
    and "str_includes (message err) ''401'' \<or> str_includes (message err) ''422''"
  shows "fetchUserData (Suc n) e s =
     (if fst (refreshAccessToken e s1) then fetchUserData n e (snd (refreshAccessToken e s1))
      else Some ((snd (refreshAccessToken e s1))\<lparr>user := None\<rparr>))"
proof -
  from assms(1) have "s1 = snd (client_getUser (config e) (the_server e) s)" by simp
  then have "pendingTokens s1 = pendingTokens s" by (simp add: client_getUser_fields)
  with assms show ?thesis
    by (auto simp: Let_def split: prod.splits option.splits bool.splits)
qed

lemma fetchUserData_other:
  assumes "client_getUser (config e) (the_server e) s = (Inl err, s1)"
    and "\<not> str_includes (message err) ''401''" and "\<not> str_includes (message err) ''422''"
  shows "fetchUserData (Suc n) e s = Some (s1\<lparr>user := None\<rparr>)"
  using assms by (auto simp: Let_def split: prod.splits option.splits bool.splits)

lemma show_nat_401: "show_nat 401 = ''401''"
  by code_simp

lemma message_401: "str_includes ''Request failed: 401'' ''401''"
  by code_simp

lemma error_message_no_fields:
  "error_message st (Json empty_body) = ''Request failed: '' @ show_nat st"
  by (simp add: error_message_def or_else_def empty_body_def)

lemma fetchUserData_SucE [consumes 1, case_names Success Promote Retry RefreshFailed Other]:
  assumes f: "fetchUserData (Suc n) e s = Some s'"
  obtains
    (Success) ud where
      "client_getUser (config e) (the_server e) s
         = (Inr ud, snd (client_getUser (config e) (the_server e) s))"
      "fetchUserData (Suc n) e s =
         Some (let s2 = (snd (client_getUser (config e) (the_server e) s))
                          \<lparr>user := (case transformUser e ud of Some u \<Rightarrow> Some u | None \<Rightarrow> ud)\<rparr>
               in if pendingTokens s \<noteq> None
                  then s2\<lparr>pendingTokens := None, storage := clearTokens (storage s2)\<rparr>
                  else if \<not> shouldUseLocalStorage (storage s)
                  then s2\<lparr>storage := clearTokens (storage s2)\<rparr>
                  else s2)"
  | (Promote) p where
      "pendingTokens s = Some p"
      "fetchUserData n e
         ((snd (client_getUser (config e) (the_server e) s))
            \<lparr>storage := setTokens (access_token p) (refresh_token p)
                          (storage (snd (client_getUser (config e) (the_server e) s))),
             pendingTokens := None\<rparr>) = Some s'"
  | (Retry)
      "fst (refreshAccessToken e (snd (client_getUser (config e) (the_server e) s)))"
      "fetchUserData n e
         (snd (refreshAccessToken e (snd (client_getUser (config e) (the_server e) s)))) = Some s'"
  | (RefreshFailed)
      "\<not> fst (refreshAccessToken e (snd (client_getUser (config e) (the_server e) s)))"
      "s' = (snd (refreshAccessToken e (snd (client_getUser (config e) (the_server e) s))))
              \<lparr>user := None\<rparr>"
  | (Other)
      "s' = (snd (client_getUser (config e) (the_server e) s))\<lparr>user := None\<rparr>"
proof -
  obtain r s1 where g: "client_getUser (config e) (the_server e) s = (r, s1)"
    by (cases "client_getUser (config e) (the_server e) s")
  then have s1: "snd (client_getUser (config e) (the_server e) s) = s1" by simp
  show thesis
  proof (cases r)
    case (Inr ud)
    with g have g': "client_getUser (config e) (the_server e) s = (Inr ud, s1)" by simp
    from fetchUserData_success [OF g'] g' show thesis
      using Success [of ud] unfolding s1 by blast
  next
    case (Inl err)
    with g have g': "client_getUser (config e) (the_server e) s = (Inl err, s1)" by simp
    show thesis
    proof (cases "str_includes (message err) ''401'' \<and> pendingTokens s \<noteq> None")
      case True
      then obtain p where p: "pendingTokens s = Some p" by auto
      from fetchUserData_promote [OF p g', of n] True f show thesis
        using Promote [of p] p unfolding s1 by simp
    next
      case np: False
      show thesis
      proof (cases "str_includes (message err) ''401'' \<or> str_includes (message err) ''422''")
        case True
        from fetchUserData_refresh [OF g' np True, of n] f show thesis
          using Retry RefreshFailed unfolding s1 by (auto split: if_splits)
      next
        case False
        with fetchUserData_other [OF g', of n] f show thesis
          using Other unfolding s1 by simp
      qed
    qed
  qed
qed

lemma calls_of_snoc:
  "calls_of opn (lg @ [rq]) = calls_of opn lg + (if rq_op rq = opn then 1 else 0)"
  by (simp add: calls_of_def)

lemma rq_op_requests:
  "rq_op (getUser_request cfg ts) = OpGetUser"
  "rq_op (checkAuth_request cfg ts) = OpCheckAuth"
  "rq_op (refresh_request cfg hs) = OpRefreshToken"
  by (simp_all add: getUser_request_def checkAuth_request_def build_request_def refresh_request_def)















text \<open>
  The branch looks at the message, not at the status: a 401 answer whose body carries an
  \<^verbatim>\<open>error\<close> field gives an error with that text as its message, which contains
  neither \<^verbatim>\<open>401\<close> nor \<^verbatim>\<open>422\<close>; the pair stays pending and the profile is
  set to null.
\<close>

lemma status_401_with_error_field:
  "(case fetchUserData 3 (env_of srv_401_error) s_pending of
      None \<Rightarrow> False
    | Some s' \<Rightarrow>
        pendingTokens s' = Some tokens_ab \<and> user s' = None \<and> isAuthenticated s'
        \<and> \<not> areCookiesBlocked (storage s') \<and> length (net_log s') = 1)"
  by code_simp













text \<open>
  No constant bounds the profile requests of one fetch: for every \<open>m\<close> there is a
  server after whose \<open>m\<close> rounds of 401 and successful refresh the fetch returns with
  \<open>m + 1\<close> profile requests issued.
\<close>

lemma srv_after_round:
  assumes p: "pendingTokens s = None" and l: "\<not> shouldUseLocalStorage (storage s)"
    and k: "length (net_log s) < 2 * m"
  shows "fetchUserData (Suc n) (env_of (srv_after m)) s
           = fetchUserData n (env_of (srv_after m))
               (snd (refreshAccessToken (env_of (srv_after m))
                  (s\<lparr>net_log := net_log s @ [getUser_request cfg0 (storage s)]\<rparr>)))"
    and "pendingTokens (snd (refreshAccessToken (env_of (srv_after m))
                  (s\<lparr>net_log := net_log s @ [getUser_request cfg0 (storage s)]\<rparr>))) = None"
    and "storage (snd (refreshAccessToken (env_of (srv_after m))
                  (s\<lparr>net_log := net_log s @ [getUser_request cfg0 (storage s)]\<rparr>))) = storage s"
    and "\<exists>rq. net_log (snd (refreshAccessToken (env_of (srv_after m))
                  (s\<lparr>net_log := net_log s @ [getUser_request cfg0 (storage s)]\<rparr>)))
           = net_log s @ [getUser_request cfg0 (storage s), rq] \<and> rq_op rq = OpRefreshToken"
proof -
  let ?e = "env_of (srv_after m)"
  let ?s1 = "s\<lparr>net_log := net_log s @ [getUser_request cfg0 (storage s)]\<rparr>"
  have g: "client_getUser (config ?e) (the_server ?e) s = (Inl (Error ''Request failed: 401''), ?s1)"
    using k by (simp add: env_of_def client_getUser_eq srv_after_def rq_op_requests response_ok_def
                  error_message_no_fields show_nat_401)
  have np: "\<not> (str_includes (message (Error ''Request failed: 401'')) ''401''
               \<and> pendingTokens s \<noteq> None)"
    using p by simp
  have t: "str_includes (message (Error ''Request failed: 401'')) ''401''
           \<or> str_includes (message (Error ''Request failed: 401'')) ''422''"
    by (simp only: js_error.sel message_401 simp_thms)
  have r: "refreshAccessToken ?e ?s1
      = (True, ?s1\<lparr>net_log := net_log ?s1 @ [refresh_request cfg0 [''Content-Type'' \<mapsto> ''application/json'']],
                   isAuthenticated := True, isRefreshingToken := False\<rparr>)"
    using l
    by (simp add: refreshAccessToken_eq env_of_def client_refreshToken_def refreshToken_send_eq
          srv_after_def rq_op_requests response_ok_def truthy_def body_alice_def empty_body_def)
  from fetchUserData_refresh [OF g np t, of n] r
  show "fetchUserData (Suc n) ?e s = fetchUserData n ?e (snd (refreshAccessToken ?e ?s1))"
    by simp
  from r p show "pendingTokens (snd (refreshAccessToken ?e ?s1)) = None" by simp
  from r show "storage (snd (refreshAccessToken ?e ?s1)) = storage s" by simp
  from r show "\<exists>rq. net_log (snd (refreshAccessToken ?e ?s1))
           = net_log s @ [getUser_request cfg0 (storage s), rq] \<and> rq_op rq = OpRefreshToken"
    by (simp add: rq_op_requests)
qed

lemma fetch_calls_after:
  "pendingTokens s = None \<Longrightarrow> \<not> shouldUseLocalStorage (storage s) \<Longrightarrow>
   length (net_log s) + 2 * j = 2 * m \<Longrightarrow>
   \<exists>s'. fetchUserData (Suc j) (env_of (srv_after m)) s = Some s'
      \<and> calls_of OpGetUser (net_log s') = calls_of OpGetUser (net_log s) + j + 1"
proof (induction j arbitrary: s)
  case 0
  let ?e = "env_of (srv_after m)"
  have g: "client_getUser (config ?e) (the_server ?e) s
      = (Inr (Some alice), s\<lparr>net_log := net_log s @ [getUser_request cfg0 (storage s)]\<rparr>)"
    using 0(3) by (simp add: env_of_def client_getUser_eq srv_after_def response_ok_def body_alice_def)
  show ?case
    unfolding fetchUserData_success [OF g]
    by (simp add: Let_def calls_of_snoc rq_op_requests)
next
  case (Suc j)
  let ?e = "env_of (srv_after m)"
  let ?s2 = "snd (refreshAccessToken ?e (s\<lparr>net_log := net_log s @ [getUser_request cfg0 (storage s)]\<rparr>))"
  from Suc.prems(3) have k: "length (net_log s) < 2 * m" by simp
  note r = srv_after_round [OF Suc.prems(1) Suc.prems(2) k]
  from r(4) obtain rq where lg: "net_log ?s2 = net_log s @ [getUser_request cfg0 (storage s), rq]"
    and rq: "rq_op rq = OpRefreshToken" by blast
  have l2: "\<not> shouldUseLocalStorage (storage ?s2)" using r(3) Suc.prems(2) by simp
  have n2: "length (net_log ?s2) + 2 * j = 2 * m" using lg Suc.prems(3) by simp
  from Suc.IH [OF r(2) l2 n2] obtain s' where
    "fetchUserData (Suc j) ?e ?s2 = Some s'"
    "calls_of OpGetUser (net_log s') = calls_of OpGetUser (net_log ?s2) + j + 1" by blast
  with r(1) [of "Suc j"] lg rq show ?case
    by (simp add: calls_of_def rq_op_requests)
qed

lemma fetch_calls_unbounded:
  "\<exists>s'. fetchUserData (Suc m) (env_of (srv_after m)) s_signed_in = Some s'
      \<and> calls_of OpGetUser (net_log s') = m + 1"
proof -
  have "pendingTokens s_signed_in = None" "\<not> shouldUseLocalStorage (storage s_signed_in)"
    "length (net_log s_signed_in) + 2 * m = 2 * m" "calls_of OpGetUser (net_log s_signed_in) = 0"
    by (simp_all add: s_signed_in_def ts_browser_def storage_defs calls_of_def)
  with fetch_calls_after [of s_signed_in m m] show ?thesis by simp
qed

text \<open>
  With a closure that holds true for both values the refresh sends nothing and returns
  true, so every 401 is followed by a retry that no refresh request accounts for: nine
  profile requests and no refresh request.
\<close>

lemma fetch_in_flight_closure:
  "cap_isRefreshingToken (env_in_flight srv_late) \<and> cap_isAuthenticated (env_in_flight srv_late)
   \<and> pendingTokens s_signed_in = None
   \<and> (case fetchUserData 10 (env_in_flight srv_late) s_signed_in of
         None \<Rightarrow> False
       | Some s' \<Rightarrow>
           calls_of OpGetUser (net_log s') = 9 \<and> calls_of OpRefreshToken (net_log s') = 0)"
  by code_simp


lemma logged_out_reads:
  "\<not> isAuthenticated (logged_out s)" "user (logged_out s) = None" "\<not> loading (logged_out s)"
  "getAccessToken (storage (logged_out s)) = None"
  "getRefreshToken (storage (logged_out s)) = None"
  "\<not> areCookiesBlocked (storage (logged_out s))"
  "pendingTokens (logged_out s) = pendingTokens s"
  by (simp_all add: logged_out_def clearTokens_reads)

lemma checkAuth_session_eq:
  "checkAuth_session n e s =
     (let s1 = snd (client_checkAuth (config e) (the_server e) s)
      in if fst (client_checkAuth (config e) (the_server e) s) then
           map_option (\<lambda>s'. s'\<lparr>loading := False\<rparr>)
             (fetchUserData n e (s1\<lparr>isAuthenticated := True\<rparr>))
         else if fst (refreshAccessToken e s1) then
           map_option (\<lambda>s'. s'\<lparr>loading := False\<rparr>)
             (fetchUserData n e ((snd (refreshAccessToken e s1))\<lparr>isAuthenticated := True\<rparr>))
         else Some (logged_out (snd (refreshAccessToken e s1))))"
  by (simp add: checkAuth_session_def Let_def split: prod.splits)

lemma checkAuth_eq:
  "checkAuth n e s =
     (if pendingTokens s \<noteq> None then Some (s\<lparr>loading := False\<rparr>)
      else if shouldUseLocalStorage (storage s)
              \<and> \<not> truthy (getAccessToken (storage s)) \<and> truthy (getRefreshToken (storage s))
      then (if \<not> fst (refreshAccessToken e s) then Some (logged_out (snd (refreshAccessToken e s)))
            else checkAuth_session n e (snd (refreshAccessToken e s)))
      else checkAuth_session n e s)"
  by (simp add: checkAuth_def Let_def split: prod.splits)








text \<open>
  With a closure that holds true for both values the refresh returns true without asking
  the server: the unconfirmed session is taken as recovered, and an unreachable server
  leaves the auth check at authenticated true with no profile.
\<close>

lemma checkAuth_in_flight_closure:
  "cap_isRefreshingToken (env_in_flight srv_unreachable)
   \<and> cap_isAuthenticated (env_in_flight srv_unreachable)
   \<and> \<not> confirms (the_server (env_in_flight srv_unreachable) (length (net_log s_fresh))
                    (checkAuth_request (config (env_in_flight srv_unreachable)) (storage s_fresh)))
   \<and> (case checkAuth 5 (env_in_flight srv_unreachable) s_fresh of
         None \<Rightarrow> False
       | Some s' \<Rightarrow>
           isAuthenticated s' \<and> user s' = None \<and> \<not> loading s'
           \<and> calls_of OpRefreshToken (net_log s') = 0)"
  by code_simp


lemma refreshAccessToken_true_auth:
  "fst (refreshAccessToken e s) \<Longrightarrow> isAuthenticated s \<or> \<not> cap_isRefreshingToken e \<Longrightarrow>
   isAuthenticated (snd (refreshAccessToken e s))"
  by (auto simp: refreshAccessToken_eq split: if_splits)

lemma fetchUserData_inv:
  "isAuthenticated s \<Longrightarrow> fetchUserData n e s = Some s' \<Longrightarrow> session_inv s'"
proof (induction n arbitrary: s)
  case 0
  then show ?case by simp
next
  case (Suc n)
  let ?s1 = "snd (client_getUser (config e) (the_server e) s)"
  have a1: "isAuthenticated ?s1" using Suc.prems(1) by (simp add: client_getUser_fields)
  from Suc.prems(2) show ?case
  proof (cases rule: fetchUserData_SucE)
    case (Success ud)
    from Success(2) Suc.prems(2) a1 have "isAuthenticated s'"
      by (auto simp: Let_def split: if_splits)
    then show ?thesis by (simp add: session_inv_def)
  next
    case (Promote p)
    from a1 have "isAuthenticated (?s1\<lparr>storage := setTokens (access_token p) (refresh_token p)
                     (storage ?s1), pendingTokens := None\<rparr>)" by simp
    from Suc.IH [OF this Promote(2)] show ?thesis .
  next
    case Retry
    from refreshAccessToken_true_auth [OF Retry(1)] a1
    have "isAuthenticated (snd (refreshAccessToken e ?s1))" by simp
    from Suc.IH [OF this Retry(2)] show ?thesis .
  next
    case RefreshFailed
    then show ?thesis by (simp add: session_inv_def)
  next
    case Other
    then show ?thesis by (simp add: session_inv_def)
  qed
qed

lemma session_inv_loading: "session_inv (s\<lparr>loading := b\<rparr>) = session_inv s"
  by (simp add: session_inv_def)

lemma session_inv_logged_out: "session_inv (logged_out s)"
  by (simp add: session_inv_def logged_out_reads)

lemma checkAuth_session_inv:
  "checkAuth_session n e s = Some s' \<Longrightarrow> session_inv s'"
proof -
  assume r: "checkAuth_session n e s = Some s'"
  let ?s1 = "snd (client_checkAuth (config e) (the_server e) s)"
  let ?s2 = "snd (refreshAccessToken e ?s1)"
  from r consider
      t where "fetchUserData n e (?s1\<lparr>isAuthenticated := True\<rparr>) = Some t" "s' = t\<lparr>loading := False\<rparr>"
    | t where "fetchUserData n e (?s2\<lparr>isAuthenticated := True\<rparr>) = Some t" "s' = t\<lparr>loading := False\<rparr>"
    | "s' = logged_out ?s2"
    by (auto simp: checkAuth_session_eq Let_def split: if_splits)
  then show ?thesis
  proof cases
    case 1
    from fetchUserData_inv [OF _ 1(1)] 1(2) show ?thesis by (simp add: session_inv_loading)
  next
    case 2
    from fetchUserData_inv [OF _ 2(1)] 2(2) show ?thesis by (simp add: session_inv_loading)
  next
    case 3
    then show ?thesis by (simp add: session_inv_logged_out)
  qed
qed

lemma checkAuth_inv:
  "session_inv s \<Longrightarrow> checkAuth n e s = Some s' \<Longrightarrow> session_inv s'"
proof -
  assume i: "session_inv s" and r: "checkAuth n e s = Some s'"
  show ?thesis
  proof (cases "pendingTokens s \<noteq> None")
    case True
    with r have "s' = s\<lparr>loading := False\<rparr>" by (simp add: checkAuth_eq)
    with i show ?thesis by (simp add: session_inv_loading)
  next
    case np: False
    show ?thesis
    proof (cases "shouldUseLocalStorage (storage s)
              \<and> \<not> truthy (getAccessToken (storage s)) \<and> truthy (getRefreshToken (storage s))")
      case False
      with np r have "checkAuth_session n e s = Some s'" by (simp add: checkAuth_eq)
      then show ?thesis by (rule checkAuth_session_inv)
    next
      case True
      show ?thesis
      proof (cases "fst (refreshAccessToken e s)")
        case t: True
        with True np r have "checkAuth_session n e (snd (refreshAccessToken e s)) = Some s'"
          by (simp add: checkAuth_eq)
        then show ?thesis by (rule checkAuth_session_inv)
      next
        case f: False
        with True np r have "s' = logged_out (snd (refreshAccessToken e s))"
          by (simp add: checkAuth_eq)
        then show ?thesis by (simp add: session_inv_logged_out)
      qed
    qed
  qed
qed

lemma completeAuthentication_inv:
  "completeAuthentication n e t s = Some s' \<Longrightarrow> session_inv s'"
  using fetchUserData_inv [of "s\<lparr>pendingTokens := Some t, isAuthenticated := True\<rparr>" n e s']
  by (simp add: completeAuthentication_def)

lemma logout_inv: "session_inv s \<Longrightarrow> session_inv (snd (logout e s))"
proof -
  assume i: "session_inv s"
  obtain r s1 where c: "client_logout (config e) (the_server e) s = (r, s1)"
    by (cases "client_logout (config e) (the_server e) s")
  show ?thesis
  proof (cases r)
    case (Inl err)
    with c have "client_logout (config e) (the_server e) s = (Inl err, s1)" by simp
    from logout_failure(1,2) [OF this] i show ?thesis by (simp add: session_inv_def)
  next
    case (Inr u)
    with c have "client_logout (config e) (the_server e) s = (Inr u, s1)" by simp
    from logout_success(2) [OF this] show ?thesis by (simp add: session_inv_def)
  qed
qed

lemma login_eq:
  "login n e em pw s =
     (let c = client_login (config e) (the_server e) em pw
                (s\<lparr>storage := clearTokens (storage s), pendingTokens := None\<rparr>)
      in case fst c of
           Inl err \<Rightarrow>
             Some (\<lparr>res_success = False, res_error = Some (message err)\<rparr>,
                   (snd c)\<lparr>isAuthenticated := False\<rparr>)
         | Inr (JNull m) \<Rightarrow>
             Some (\<lparr>res_success = False, res_error = Some m\<rparr>,
                   (snd c)\<lparr>isAuthenticated := False\<rparr>)
         | Inr (JObject resp) \<Rightarrow>
             if truthy (b_access_token resp) \<and> truthy (b_refresh_token resp) then
               map_option (\<lambda>s'. (\<lparr>res_success = True, res_error = None\<rparr>, s'))
                 (completeAuthentication n e
                    \<lparr>access_token = the (b_access_token resp),
                     refresh_token = the (b_refresh_token resp)\<rparr> (snd c))
             else Some (\<lparr>res_success = True, res_error = None\<rparr>, snd c))"
proof -
  obtain a b where c: "client_login (config e) (the_server e) em pw
      (s\<lparr>storage := clearTokens (storage s), pendingTokens := None\<rparr>) = (a, b)"
    by (cases "client_login (config e) (the_server e) em pw
      (s\<lparr>storage := clearTokens (storage s), pendingTokens := None\<rparr>)")
  show ?thesis
    unfolding login_def Let_def c by (cases a) (simp_all split: json_value.splits)
qed

lemma signup_eq:
  "signup n e cr s =
     (let c = client_signup (config e) (the_server e) cr
                (s\<lparr>storage := clearTokens (storage s), pendingTokens := None\<rparr>)
      in case fst c of
           Inl err \<Rightarrow>
             Some (\<lparr>res_success = False, res_error = Some (message err)\<rparr>,
                   (snd c)\<lparr>isAuthenticated := False\<rparr>)
         | Inr (JNull m) \<Rightarrow>
             Some (\<lparr>res_success = False, res_error = Some m\<rparr>,
                   (snd c)\<lparr>isAuthenticated := False\<rparr>)
         | Inr (JObject resp) \<Rightarrow>
             if truthy (b_access_token resp) \<and> truthy (b_refresh_token resp) then
               map_option (\<lambda>s'. (\<lparr>res_success = True, res_error = None\<rparr>, s'))
                 (completeAuthentication n e
                    \<lparr>access_token = the (b_access_token resp),
                     refresh_token = the (b_refresh_token resp)\<rparr> (snd c))
             else Some (\<lparr>res_success = True, res_error = None\<rparr>, snd c))"
proof -
  obtain a b where c: "client_signup (config e) (the_server e) cr
      (s\<lparr>storage := clearTokens (storage s), pendingTokens := None\<rparr>) = (a, b)"
    by (cases "client_signup (config e) (the_server e) cr
      (s\<lparr>storage := clearTokens (storage s), pendingTokens := None\<rparr>)")
  show ?thesis
    unfolding signup_def Let_def c by (cases a) (simp_all split: json_value.splits)
qed

lemma request_fields:
  "isAuthenticated (snd (request cfg srv opn ep m b ia s)) = isAuthenticated s"
  "user (snd (request cfg srv opn ep m b ia s)) = user s"
  by (simp_all add: request_eq)

lemma login_inv:
  assumes "session_inv s" and "login n e em pw s = Some (r, s')" and "res_success r \<or> user s = None"
  shows "session_inv s'"
proof -
  let ?c = "client_login (config e) (the_server e) em pw
                (s\<lparr>storage := clearTokens (storage s), pendingTokens := None\<rparr>)"
  have f: "isAuthenticated (snd ?c) = isAuthenticated s" "user (snd ?c) = user s"
    by (simp_all add: client_login_def request_fields)
  from assms(2) consider
      "\<not> res_success r" "s' = (snd ?c)\<lparr>isAuthenticated := False\<rparr>"
    | t where "completeAuthentication n e t (snd ?c) = Some s'"
    | "s' = snd ?c"
    by (auto simp: login_eq Let_def split: sum.splits json_value.splits if_splits)
  then show ?thesis
  proof cases
    case 1
    with assms(3) f show ?thesis by (simp add: session_inv_def)
  next
    case 2
    then show ?thesis by (rule completeAuthentication_inv)
  next
    case 3
    with assms(1) f show ?thesis by (simp add: session_inv_def)
  qed
qed

lemma signup_inv:
  assumes "session_inv s" and "signup n e cr s = Some (r, s')" and "res_success r \<or> user s = None"
  shows "session_inv s'"
proof -
  let ?c = "client_signup (config e) (the_server e) cr
                (s\<lparr>storage := clearTokens (storage s), pendingTokens := None\<rparr>)"
  have f: "isAuthenticated (snd ?c) = isAuthenticated s" "user (snd ?c) = user s"
    by (simp_all add: client_signup_def request_fields)
  from assms(2) consider
      "\<not> res_success r" "s' = (snd ?c)\<lparr>isAuthenticated := False\<rparr>"
    | t where "completeAuthentication n e t (snd ?c) = Some s'"
    | "s' = snd ?c"
    by (auto simp: signup_eq Let_def split: sum.splits json_value.splits if_splits)
  then show ?thesis
  proof cases
    case 1
    with assms(3) f show ?thesis by (simp add: session_inv_def)
  next
    case 2
    then show ?thesis by (rule completeAuthentication_inv)
  next
    case 3
    with assms(1) f show ?thesis by (simp add: session_inv_def)
  qed
qed

lemma refreshAccessToken_inv:
  "session_inv s \<Longrightarrow> fst (refreshAccessToken e s) \<Longrightarrow> session_inv (snd (refreshAccessToken e s))"
  by (auto simp: refreshAccessToken_eq session_inv_def client_refreshToken_fields split: if_splits)

lemma extractOAuthTokensFromUrl_inv:
  "session_inv (snd (extractOAuthTokensFromUrl loc s)) = session_inv s"
  by (simp add: extractOAuthTokensFromUrl_def session_inv_def Let_def)

lemma initialize_inv:
  assumes i: "session_inv s" and r: "initialize n e loc s = Some s'"
  shows "session_inv s'"
proof (cases "hasCheckedAuth s")
  case True
  with r i show ?thesis by (simp add: initialize_def)
next
  case False
  let ?x = "extractOAuthTokensFromUrl loc (s\<lparr>hasCheckedAuth := True\<rparr>)"
  have i1: "session_inv (snd ?x)"
    using i by (simp add: extractOAuthTokensFromUrl_inv) (simp add: session_inv_def)
  show ?thesis
  proof (cases "fst ?x")
    case None
    with False r have "checkAuth n e (snd ?x) = Some s'"
      by (simp add: initialize_def Let_def case_prod_beta)
    from checkAuth_inv [OF i1 this] show ?thesis .
  next
    case (Some t)
    with False r obtain u where "completeAuthentication n e t (snd ?x) = Some u"
      "s' = u\<lparr>loading := False\<rparr>"
      by (auto simp: initialize_def Let_def case_prod_beta)
    with completeAuthentication_inv [of n e t "snd ?x" u] show ?thesis
      by (simp add: session_inv_loading)
  qed
qed

text \<open>
  C3, as the code has it. The invariant "not authenticated implies no profile" is
  preserved by initialization (the mount effect, and the auth check and the completion it
  dispatches to), by logout on both of its branches, by a login or signup that succeeds
  (or fails while no profile is held), by a profile fetch started in an authenticated
  state, and by a refresh that succeeds.
\<close>

theorem session_invariant_preserved:
  "session_inv s \<Longrightarrow>
   (\<forall>s'. initialize n e loc s = Some s' \<longrightarrow> session_inv s')
   \<and> (\<forall>s'. checkAuth n e s = Some s' \<longrightarrow> session_inv s')
   \<and> (\<forall>t s'. completeAuthentication n e t s = Some s' \<longrightarrow> session_inv s')
   \<and> session_inv (snd (logout e s))
   \<and> (\<forall>r s'. login n e em pw s = Some (r, s') \<and> (res_success r \<or> user s = None)
         \<longrightarrow> session_inv s')
   \<and> (\<forall>r s'. signup n e cr s = Some (r, s') \<and> (res_success r \<or> user s = None)
         \<longrightarrow> session_inv s')
   \<and> (\<forall>s'. isAuthenticated s \<and> fetchUserData n e s = Some s' \<longrightarrow> session_inv s')
   \<and> (fst (refreshAccessToken e s) \<longrightarrow> session_inv (snd (refreshAccessToken e s)))"
proof -
  assume i: "session_inv s"
  have 0: "\<forall>s'. initialize n e loc s = Some s' \<longrightarrow> session_inv s'"
    using initialize_inv [OF i] by blast
  have 1: "\<forall>s'. checkAuth n e s = Some s' \<longrightarrow> session_inv s'"
    using checkAuth_inv [OF i] by blast
  have 2: "\<forall>t s'. completeAuthentication n e t s = Some s' \<longrightarrow> session_inv s'"
    using completeAuthentication_inv by blast
  have 3: "session_inv (snd (logout e s))"
    by (rule logout_inv [OF i])
  have 4: "\<forall>r s'. login n e em pw s = Some (r, s') \<and> (res_success r \<or> user s = None)
         \<longrightarrow> session_inv s'"
    using login_inv [OF i] by blast
  have 5: "\<forall>r s'. signup n e cr s = Some (r, s') \<and> (res_success r \<or> user s = None)
         \<longrightarrow> session_inv s'"
    using signup_inv [OF i] by blast
  have 6: "\<forall>s'. isAuthenticated s \<and> fetchUserData n e s = Some s' \<longrightarrow> session_inv s'"
    using fetchUserData_inv by blast
  have 7: "fst (refreshAccessToken e s) \<longrightarrow> session_inv (snd (refreshAccessToken e s))"
    using refreshAccessToken_inv [OF i] by blast
  from 0 1 2 3 4 5 6 7 show ?thesis by blast
qed

theorem session_invariant_preserved_witness:
  "session_inv s_fresh
   \<and> (\<exists>s'. initialize 3 (env_of srv_tokens) loc_oauth s_fresh = Some s' \<and> session_inv s')
   \<and> session_inv s_signed_in
   \<and> isAuthenticated s_signed_in
   \<and> (\<exists>s'. checkAuth 3 (env_of srv_tokens) s_signed_in = Some s' \<and> session_inv s')
   \<and> (\<exists>s'. completeAuthentication 3 (env_of srv_tokens) tokens_ab s_signed_in = Some s'
         \<and> session_inv s')
   \<and> session_inv (snd (logout (env_of srv_tokens) s_signed_in))
   \<and> (\<exists>r s'. login 3 (env_of srv_tokens) ''alice@example.com'' ''secret'' s_signed_in = Some (r, s')
         \<and> res_success r \<and> session_inv s')
   \<and> (\<exists>r s'. signup 3 (env_of srv_tokens)
                \<lparr>sc_email = ''alice@example.com'', sc_password = ''secret''\<rparr> s_signed_in
              = Some (r, s')
         \<and> res_success r \<and> session_inv s')
   \<and> (\<exists>s'. fetchUserData 3 (env_of srv_tokens) s_signed_in = Some s' \<and> session_inv s')
   \<and> fst (refreshAccessToken (env_of srv_tokens) s_signed_in)
   \<and> session_inv (snd (refreshAccessToken (env_of srv_tokens) s_signed_in))"
proof -
  let ?e = "env_of srv_tokens"
  let ?cr = "\<lparr>sc_email = ''alice@example.com'', sc_password = ''secret''\<rparr>"
  have i: "session_inv s_signed_in" and a: "isAuthenticated s_signed_in"
    by (simp_all add: session_inv_def s_signed_in_def)
  have j: "session_inv s_fresh"
    by (simp add: session_inv_def s_fresh_def)
  have "initialize 3 ?e loc_oauth s_fresh \<noteq> None" by code_simp
  with session_invariant_preserved [OF j, of 3 ?e loc_oauth]
  have 0: "\<exists>s'. initialize 3 ?e loc_oauth s_fresh = Some s' \<and> session_inv s'" by blast
  note T = session_invariant_preserved
            [OF i, of 3 ?e loc_oauth "''alice@example.com''" "''secret''" ?cr]
  have "checkAuth 3 ?e s_signed_in \<noteq> None" by code_simp
  with T have 1: "\<exists>s'. checkAuth 3 ?e s_signed_in = Some s' \<and> session_inv s'" by blast
  have "completeAuthentication 3 ?e tokens_ab s_signed_in \<noteq> None" by code_simp
  with T have 2: "\<exists>s'. completeAuthentication 3 ?e tokens_ab s_signed_in = Some s' \<and> session_inv s'"
    by blast
  from T have 3: "session_inv (snd (logout ?e s_signed_in))" by blast
  have "case login 3 ?e ''alice@example.com'' ''secret'' s_signed_in of
          None \<Rightarrow> False | Some (r, s') \<Rightarrow> res_success r"
    by code_simp
  then obtain r s' where "login 3 ?e ''alice@example.com'' ''secret'' s_signed_in = Some (r, s')"
    "res_success r"
    by (auto split: option.splits)
  with T have 4: "\<exists>r s'. login 3 ?e ''alice@example.com'' ''secret'' s_signed_in = Some (r, s')
         \<and> res_success r \<and> session_inv s'" by blast
  have "case signup 3 ?e ?cr s_signed_in of None \<Rightarrow> False | Some (r, s') \<Rightarrow> res_success r"
    by code_simp
  then obtain r s' where "signup 3 ?e ?cr s_signed_in = Some (r, s')" "res_success r"
    by (auto split: option.splits)
  with T have 5: "\<exists>r s'. signup 3 ?e ?cr s_signed_in = Some (r, s')
         \<and> res_success r \<and> session_inv s'" by blast
  have "fetchUserData 3 ?e s_signed_in \<noteq> None" by code_simp
  with T a have 6: "\<exists>s'. fetchUserData 3 ?e s_signed_in = Some s' \<and> session_inv s'" by blast
  have 7: "fst (refreshAccessToken ?e s_signed_in)" by code_simp
  with T have 8: "session_inv (snd (refreshAccessToken ?e s_signed_in))" by blast
  from j 0 i a 1 2 3 4 5 6 7 8 show ?thesis by blast
qed

text \<open>
  C3 as stated, for refresh: \<^verbatim>\<open>refreshAccessToken\<close> ends with
  \<^verbatim>\<open>setIsAuthenticated(success)\<close> and never touches the profile. When the server
  rejects the refresh of a signed-in session, the result is authenticated false with
  Alice's profile still in place; clearing it is left to the caller.
\<close>

theorem session_invariant_refresh_counterexample:
  "session_inv s_signed_in
   \<and> \<not> fst (refreshAccessToken (env_of srv_401) s_signed_in)
   \<and> \<not> isAuthenticated (snd (refreshAccessToken (env_of srv_401) s_signed_in))
   \<and> user (snd (refreshAccessToken (env_of srv_401) s_signed_in)) = Some alice
   \<and> \<not> session_inv (snd (refreshAccessToken (env_of srv_401) s_signed_in))"
  by code_simp

text \<open>
  The \<^verbatim>\<open>catch\<close> branches of \<^verbatim>\<open>login\<close> and \<^verbatim>\<open>signup\<close> call
  \<^verbatim>\<open>setIsAuthenticated(false)\<close> without \<^verbatim>\<open>setUser(null)\<close>, unlike the failure
  exits of \<^verbatim>\<open>checkAuth\<close>: a failed login on a signed-in session keeps the profile.
\<close>

lemma login_failure_keeps_profile:
  "(case login 3 (env_of srv_401) ''alice@example.com'' ''wrong'' s_signed_in of
      None \<Rightarrow> False
    | Some (r, s') \<Rightarrow> \<not> res_success r \<and> \<not> isAuthenticated s' \<and> user s' = Some alice)"
  by code_simp

section \<open>Properties of two refresh calls in flight\<close>

text \<open>The cut at the suspension points composes to the sequential functions.\<close>

lemma client_refreshToken_issue_settle:
  "client_refreshToken cfg srv w =
     (let (p, w1) = refreshToken_issue cfg srv w in refreshToken_settle p w1)"
  by (simp add: client_refreshToken_def refreshToken_issue_def refreshToken_settle_def
        refreshToken_send_def Let_def split: option.splits prod.splits)

lemma refreshAccessToken_issue_settle:
  "\<not> cap_isRefreshingToken e \<Longrightarrow>
   refreshAccessToken e s =
     (let (p, s1) = refreshToken_issue (config e) (the_server e) (s\<lparr>isRefreshingToken := True\<rparr>)
      in refresh_settle p s1)"
  by (simp add: refreshAccessToken_def client_refreshToken_issue_settle refresh_settle_def Let_def
        split: prod.splits)

lemma refreshToken_issue_log:
  "\<not> shouldUseLocalStorage (storage w) \<or> truthy (getRefreshToken (storage w)) \<Longrightarrow>
   \<exists>hs. net_log (snd (refreshToken_issue cfg srv w)) = net_log w @ [refresh_request cfg hs]"
  by (auto simp: refreshToken_issue_def fetch_def truthy_def Let_def split: option.splits)

lemma refreshToken_issue_storage:
  "storage (snd (refreshToken_issue cfg srv w)) = storage w"
  by (simp add: refreshToken_issue_def fetch_def Let_def split: option.splits)

lemma refreshToken_settle_log: "net_log (snd (refreshToken_settle p w)) = net_log w"
  by (simp add: refreshToken_settle_def refreshToken_receive_def
        split: option.splits prod.splits response.splits response_body.splits)

lemma refresh_settle_log: "net_log (snd (refresh_settle p s)) = net_log s"
  by (simp add: refresh_settle_def Let_def case_prod_beta refreshToken_settle_log)

text \<open>
  Unless \<^verbatim>\<open>refreshToken\<close> gives up before \<^verbatim>\<open>fetch\<close> (fallback mode without a
  refresh token), two calls of one render's callback send two refresh requests.
\<close>

lemma refreshAccessToken_pair_calls:
  assumes c: "\<not> cap_isRefreshingToken e"
    and t: "\<not> shouldUseLocalStorage (storage s) \<or> truthy (getRefreshToken (storage s))"
  shows "calls_of OpRefreshToken (net_log (snd (refreshAccessToken_pair e s)))
           = calls_of OpRefreshToken (net_log s) + 2"
proof -
  let ?s2 = "s\<lparr>isRefreshingToken := True\<rparr>"
  let ?i1 = "refreshToken_issue (config e) (the_server e) ?s2"
  let ?i2 = "refreshToken_issue (config e) (the_server e) (snd ?i1)"
  from t have t2: "\<not> shouldUseLocalStorage (storage ?s2) \<or> truthy (getRefreshToken (storage ?s2))"
    by simp
  from refreshToken_issue_log [OF t2]
  obtain h1 where l1: "net_log (snd ?i1) = net_log s @ [refresh_request (config e) h1]" by auto
  have "storage (snd ?i1) = storage s" by (simp add: refreshToken_issue_storage)
  with t have "\<not> shouldUseLocalStorage (storage (snd ?i1)) \<or> truthy (getRefreshToken (storage (snd ?i1)))"
    by simp
  from refreshToken_issue_log [OF this]
  obtain h2 where l2: "net_log (snd ?i2) = net_log (snd ?i1) @ [refresh_request (config e) h2]"
    by auto
  have "net_log (snd (refreshAccessToken_pair e s)) = net_log (snd ?i2)"
    using c by (simp add: refreshAccessToken_pair_def Let_def case_prod_beta refresh_settle_log)
  with l1 l2 show ?thesis by (simp add: calls_of_def rq_op_requests)
qed

text \<open>
  C7. The claim asks that of two concurrent refresh calls only one reaches the network
  and that both return the same flag. The guard of \<^verbatim>\<open>refreshAccessToken\<close> reads
  \<^verbatim>\<open>isRefreshingToken\<close> from the closure, which \<^verbatim>\<open>setIsRefreshingToken(true)\<close>
  does not change: two calls of one render's callback on a signed-in session both pass
  it and send two refresh requests. With a server that accepts the first and rejects the
  second, the callers get \<open>True\<close> and \<open>False\<close>, and the session ends not
  authenticated. (A caller whose closure holds \<open>True\<close> sends nothing and returns the
  \<^verbatim>\<open>isAuthenticated\<close> of its own closure: \<open>refreshAccessToken_in_flight\<close>.)
\<close>

theorem refresh_pair_not_serialized:
  "\<not> cap_isRefreshingToken (env_of srv_once)
   \<and> isAuthenticated s_signed_in
   \<and> fst (refreshAccessToken_pair (env_of srv_once) s_signed_in) = (True, False)
   \<and> calls_of OpRefreshToken (net_log (snd (refreshAccessToken_pair (env_of srv_once) s_signed_in))) = 2
   \<and> \<not> isAuthenticated (snd (refreshAccessToken_pair (env_of srv_once) s_signed_in))"
  by code_simp

end
